theory Spec2Isabelle
  imports Complex_Main
begin

section \<open>Python values used by the bot\<close>

text \<open>
  A Python \<open>str\<close> is a sequence of Unicode code points and \<open>len\<close> counts code
  points, so a string is modelled as the list of its code points. ASCII literals of the
  source are written through \<open>ascii\<close>; the other literals (Chinese text, emoji) are
  written out as code point lists.
\<close>

type_synonym pystr = "nat list"

definition ascii :: "string \<Rightarrow> pystr" where
  "ascii s = map of_char s"

text \<open>\<open>str(n)\<close> for a Python int: decimal digits, a minus sign for negatives.\<close>

function str_nat :: "nat \<Rightarrow> pystr" where
  "str_nat n = (if n < 10 then [48 + n] else str_nat (n div 10) @ [48 + n mod 10])"
  by pat_completeness auto
termination
  by (relation "measure id") auto

declare str_nat.simps [simp del]

definition str_int :: "int \<Rightarrow> pystr" where
  "str_int i = (if i < 0 then 45 # str_nat (nat (- i)) else str_nat (nat i))"

text \<open>\<open>sep.join(parts)\<close> for parts that are all strings.\<close>

fun py_join :: "pystr \<Rightarrow> pystr list \<Rightarrow> pystr" where
  "py_join sep [] = []"
| "py_join sep [p] = p"
| "py_join sep (p # q # ps) = p @ sep @ py_join sep (q # ps)"

text \<open>
  \<open>str.isspace\<close> of one code point (the code points CPython strips with
  \<open>str.strip()\<close>), and \<open>str.strip()\<close> itself.
\<close>

definition py_isspace :: "nat \<Rightarrow> bool" where
  "py_isspace c =
     ((9 \<le> c \<and> c \<le> 13) \<or> (28 \<le> c \<and> c \<le> 32) \<or> c = 133 \<or> c = 160 \<or> c = 5760 \<or>
      (8192 \<le> c \<and> c \<le> 8202) \<or> c = 8232 \<or> c = 8233 \<or> c = 8239 \<or> c = 8287 \<or> c = 12288)"

definition py_strip :: "pystr \<Rightarrow> pystr" where
  "py_strip s = rev (dropWhile py_isspace (rev (dropWhile py_isspace s)))"

text \<open>
  \<open>range(start, stop, step)\<close> for non-negative arguments. Python raises ValueError for
  a zero step; the handlers only call it with the constants 4000 and 3800.
\<close>

function py_range :: "nat \<Rightarrow> nat \<Rightarrow> nat \<Rightarrow> nat list" where
  "py_range i stop step =
     (if step = 0 then [] else if i < stop then i # py_range (i + step) stop step else [])"
  by pat_completeness auto
termination
  by (relation "measure (\<lambda>(i, stop, step). stop - i)") auto

declare py_range.simps [simp del]

text \<open>The comprehension \<open>[s[i:i+width] for i in range(0, len(s), width)]\<close>.\<close>

definition chunks_of :: "nat \<Rightarrow> pystr \<Rightarrow> pystr list" where
  "chunks_of width s = map (\<lambda>i. take width (drop i s)) (py_range 0 (length s) width)"

text \<open>\<open>enumerate(xs)\<close>.\<close>

definition py_enumerate :: "'a list \<Rightarrow> (nat \<times> 'a) list" where
  "py_enumerate xs = zip [0..<length xs] xs"

section \<open>Exceptions, the transport and the world\<close>

text \<open>
  An exception is its class and \<open>str(e)\<close>. Only subclasses of \<open>Exception\<close> are
  modelled; a subclass the code does not tell apart counts with its base class, and
  \<open>OtherError\<close> stands for every class the code never names. In python-telegram-bot
  \<open>TimedOut\<close> and \<open>NetworkError\<close> are \<open>TelegramError\<close>s.
\<close>

datatype exn_class =
  NetworkError | TimedOut | TelegramError | ValueError | TypeError | AttributeError |
  NameError | UnboundLocalError | ClientError | Exception | OtherError

datatype exn = Exn (exn_class: exn_class) (exn_str: pystr)

text \<open>The classes \<open>except (NetworkError, TimedOut)\<close> catches.\<close>

definition transient :: "exn \<Rightarrow> bool" where
  "transient e = (exn_class e = NetworkError \<or> exn_class e = TimedOut)"

text \<open>
  The messaging transport is outside the repository. It is an oracle: the outcome of the
  n-th transport call, given the request. A sent message is its handle (a number).
  The world records how many transport calls were made and the trace of what happened:
  every transport call with its outcome, and every \<open>asyncio.sleep\<close>.
\<close>

datatype request = Reply_text pystr | Edit_text nat pystr

datatype outcome = Delivered nat | Raises exn

datatype event = Call request outcome | Sleep nat

record world =
  calls :: nat
  trace :: "event list"

type_synonym transport = "nat \<Rightarrow> request \<Rightarrow> outcome"

type_synonym 'a io = "world \<Rightarrow> (exn + 'a) \<times> world"

definition return_io :: "'a \<Rightarrow> 'a io" where
  "return_io x w = (Inr x, w)"

definition bind_io :: "'a io \<Rightarrow> ('a \<Rightarrow> 'b io) \<Rightarrow> 'b io" where
  "bind_io m f w = (case m w of (Inl e, w') \<Rightarrow> (Inl e, w') | (Inr x, w') \<Rightarrow> f x w')"

text \<open>\<open>try: m except Exception as e: h e\<close>.\<close>

definition try_except :: "'a io \<Rightarrow> (exn \<Rightarrow> 'a io) \<Rightarrow> 'a io" where
  "try_except m h w = (case m w of (Inl e, w') \<Rightarrow> h e w' | (Inr x, w') \<Rightarrow> (Inr x, w'))"

text \<open>The result of a call into a collaborator that does not touch the transport.\<close>

definition lift_io :: "exn + 'a \<Rightarrow> 'a io" where
  "lift_io r w = (r, w)"

text \<open>A \<open>for\<close> loop whose body awaits: the first exception ends it.\<close>

fun for_io :: "'a list \<Rightarrow> ('a \<Rightarrow> unit io) \<Rightarrow> unit io" where
  "for_io [] body w = (Inr (), w)"
| "for_io (x # xs) body w =
     (case body x w of (Inl e, w') \<Rightarrow> (Inl e, w') | (Inr u, w') \<Rightarrow> for_io xs body w')"

definition transport_call :: "transport \<Rightarrow> request \<Rightarrow> nat io" where
  "transport_call tr req w =
     (let r = tr (calls w) req
      in (case r of Delivered m \<Rightarrow> Inr m | Raises e \<Rightarrow> Inl e,
          \<lparr>calls = calls w + 1, trace = trace w @ [Call req r]\<rparr>))"

definition sleep :: "nat \<Rightarrow> world \<Rightarrow> world" where
  "sleep n w = w\<lparr>trace := trace w @ [Sleep n]\<rparr>"

section \<open>Delivery primitives (handlers/commands.py)\<close>

text \<open>
  \<open>safe_reply(message, text, max_retries=3)\<close>: the loop over
  \<open>range(max_retries)\<close>. A transient error on the last attempt is re-raised; any other
  exception leaves the loop at once. When the range is empty the function falls off its
  end and returns \<open>None\<close>.
\<close>

fun safe_reply_loop :: "transport \<Rightarrow> pystr \<Rightarrow> nat \<Rightarrow> nat list \<Rightarrow> nat option io" where
  "safe_reply_loop tr text max_retries [] w = (Inr None, w)"
| "safe_reply_loop tr text max_retries (attempt # rest) w =
     (case transport_call tr (Reply_text text) w of
        (Inr sent, w') \<Rightarrow> (Inr (Some sent), w')
      | (Inl e, w') \<Rightarrow>
          if transient e then
            (if int attempt < int max_retries - 1
             then safe_reply_loop tr text max_retries rest (sleep (2 ^ attempt) w')
             else (Inl e, w'))
          else (Inl e, w'))"

definition safe_reply :: "transport \<Rightarrow> pystr \<Rightarrow> nat \<Rightarrow> nat option io" where
  "safe_reply tr text max_retries = safe_reply_loop tr text max_retries [0..<max_retries]"

text \<open>
  \<open>safe_edit(message, text, max_retries=3)\<close>: the same loop on \<open>edit_text\<close>, but a
  transient error on the last attempt returns \<open>None\<close>.
\<close>

fun safe_edit_loop :: "transport \<Rightarrow> nat \<Rightarrow> pystr \<Rightarrow> nat \<Rightarrow> nat list \<Rightarrow> nat option io" where
  "safe_edit_loop tr message text max_retries [] w = (Inr None, w)"
| "safe_edit_loop tr message text max_retries (attempt # rest) w =
     (case transport_call tr (Edit_text message text) w of
        (Inr sent, w') \<Rightarrow> (Inr (Some sent), w')
      | (Inl e, w') \<Rightarrow>
          if transient e then
            (if int attempt < int max_retries - 1
             then safe_edit_loop tr message text max_retries rest (sleep (2 ^ attempt) w')
             else (Inr None, w'))
          else (Inl e, w'))"

definition safe_edit :: "transport \<Rightarrow> nat \<Rightarrow> pystr \<Rightarrow> nat \<Rightarrow> nat option io" where
  "safe_edit tr message text max_retries =
     safe_edit_loop tr message text max_retries [0..<max_retries]"

section \<open>Command handlers (handlers/commands.py)\<close>

subsection \<open>The text literals\<close>

text \<open>
  The literals of the handlers that are not ASCII, as code points, each with the source
  line it is read from; then the ASCII literals of \<open>fetch_command\<close>.
\<close>

definition deepseek_usage :: pystr where
  \<comment> \<open>the usage help of /deepseek (line 68)\<close>
  "deepseek_usage =
    [35831, 25552, 20379, 38382, 39064, 12290, 10, 29992, 27861, 58, 32, 47, 100, 101, 101,
     112, 115, 101, 101, 107, 32, 60, 20320, 30340, 38382, 39064, 62]"

definition deepseek_thinking :: pystr where
  \<comment> \<open>the status placeholder of /deepseek (line 74)\<close>
  "deepseek_thinking =
    [129300, 32, 68, 101, 101, 112, 83, 101, 101, 107, 27491, 22312, 24605, 32771, 46, 46,
     46]"

definition deepseek_processing :: pystr where
  \<comment> \<open>status: processing the question (line 81)\<close>
  "deepseek_processing =
    [129300, 32, 68, 101, 101, 112, 83, 101, 101, 107, 27491, 22312, 22788, 29702, 24744,
     30340, 38382, 39064, 46, 46, 46]"

definition deepseek_done :: pystr where
  \<comment> \<open>status: answer complete (line 86)\<close>
  "deepseek_done =
    [9989, 32, 68, 101, 101, 112, 83, 101, 101, 107, 24050, 23436, 25104, 22238, 31572]"

definition answer_part_prefix :: pystr where
  \<comment> \<open>label of an answer chunk, before the part number (line 92)\<close>
  "answer_part_prefix =
    [128221, 32, 22238, 31572, 32, 40, 31532]"

definition part_suffix :: pystr where
  \<comment> \<open>label of a chunk, after the part number (lines 92, 150)\<close>
  "part_suffix =
    [37096, 20998, 41, 58, 10, 10]"

definition answer_prefix :: pystr where
  \<comment> \<open>label of an unsplit answer (line 94)\<close>
  "answer_prefix =
    [128221, 32, 22238, 31572, 58, 10, 10]"

definition deepseek_unconfigured_status :: pystr where
  \<comment> \<open>status: API not configured (line 98)\<close>
  "deepseek_unconfigured_status =
    [9888, 65039, 32, 68, 101, 101, 112, 83, 101, 101, 107, 32, 65, 80, 73, 26410, 37197,
     32622]"

definition deepseek_unconfigured_reply :: pystr where
  \<comment> \<open>reply: API not configured (line 99)\<close>
  "deepseek_unconfigured_reply =
    [9888, 65039, 32, 68, 101, 101, 112, 83, 101, 101, 107, 32, 65, 80, 73, 26410, 37197,
     32622, 12290, 35831, 22312, 46, 101, 110, 118, 25991, 20214, 20013, 35774, 32622, 68,
     69, 69, 80, 83, 69, 69, 75, 95, 65, 80, 73, 95, 75, 69, 89, 12290]"

definition deepseek_failed_status :: pystr where
  \<comment> \<open>status: failed (line 103)\<close>
  "deepseek_failed_status =
    [10060, 32, 68, 101, 101, 112, 83, 101, 101, 107, 25191, 34892, 22833, 36133]"

definition error_prefix :: pystr where
  \<comment> \<open>prefix of an error reply (lines 104, 169)\<close>
  "error_prefix =
    [10060, 32, 38169, 35823, 58, 32]"

definition retry_later_suffix :: pystr where
  \<comment> \<open>suffix of the /deepseek error reply (line 104)\<close>
  "retry_later_suffix =
    [10, 10, 35831, 31245, 21518, 37325, 35797, 12290]"

definition claude_usage :: pystr where
  \<comment> \<open>the usage help of /claude (lines 111-116)\<close>
  "claude_usage =
    [35831, 25552, 20379, 25805, 20316, 25551, 36848, 12290, 10, 29992, 27861, 58, 32, 47,
     99, 108, 97, 117, 100, 101, 32, 60, 25805, 20316, 25551, 36848, 62, 10, 10, 31034,
     20363, 58, 10, 8226, 32, 47, 99, 108, 97, 117, 100, 101, 32, 21015, 20986, 24403,
     21069, 30446, 24405, 30340, 25991, 20214, 10, 8226, 32, 47, 99, 108, 97, 117, 100,
     101, 32, 21019, 24314, 19968, 20010, 21517, 20026, 116, 101, 115, 116, 46, 116, 120,
     116, 30340, 25991, 20214, 10, 8226, 32, 47, 99, 108, 97, 117, 100, 101, 32, 24110,
     25105, 20889, 19968, 20010, 80, 121, 116, 104, 111, 110, 33050, 26412, 35745, 31639,
     26000, 27874, 37027, 22865, 25968, 21015]"

definition claude_starting :: pystr where
  \<comment> \<open>the status placeholder of /claude (line 123)\<close>
  "claude_starting =
    [128187, 32, 67, 108, 97, 117, 100, 101, 32, 67, 111, 100, 101, 27491, 22312, 21551,
     21160, 46, 46, 46]"

definition status_marker :: pystr where
  \<comment> \<open>marker of a status event (line 132)\<close>
  "status_marker =
    [128187, 32]"

definition progress_marker :: pystr where
  \<comment> \<open>marker of a progress event (line 134)\<close>
  "progress_marker =
    [9881, 65039, 32]"

definition claude_done :: pystr where
  \<comment> \<open>status: execution complete (line 139)\<close>
  "claude_done =
    [9989, 32, 67, 108, 97, 117, 100, 101, 32, 67, 111, 100, 101, 25191, 34892, 23436,
     25104]"

definition no_output_text :: pystr where
  \<comment> \<open>the fallback output (line 143)\<close>
  "no_output_text =
    [25191, 34892, 25104, 21151, 65292, 26080, 36755, 20986, 20869, 23481, 12290]"

definition output_part_prefix :: pystr where
  \<comment> \<open>label of an output chunk, before the part number (line 150)\<close>
  "output_part_prefix =
    [128196, 32, 36755, 20986, 32, 40, 31532]"

definition output_prefix :: pystr where
  \<comment> \<open>label of an unsplit output (line 153)\<close>
  "output_prefix =
    [128196, 32, 36755, 20986, 58, 10, 10]"

definition claude_failed_status :: pystr where
  \<comment> \<open>status: execution failed (line 155)\<close>
  "claude_failed_status =
    [10060, 32, 67, 108, 97, 117, 100, 101, 32, 67, 111, 100, 101, 25191, 34892, 22833,
     36133]"

definition cut_marker :: pystr where
  \<comment> \<open>the truncation marker of the failure path (line 159)\<close>
  "cut_marker =
    [10, 10, 46, 46, 46, 32, 40, 24050, 25130, 26029, 41]"

definition exec_failed_prefix :: pystr where
  \<comment> \<open>failure reply, before the return code (line 162)\<close>
  "exec_failed_prefix =
    [10060, 32, 25191, 34892, 22833, 36133, 32, 40, 36864, 20986, 30721, 58, 32]"

definition exec_failed_mid :: pystr where
  \<comment> \<open>failure reply, after the return code (line 162)\<close>
  "exec_failed_mid =
    [41, 10, 10]"

definition claude_error_status :: pystr where
  \<comment> \<open>status: execution error (line 168)\<close>
  "claude_error_status =
    [10060, 32, 67, 108, 97, 117, 100, 101, 32, 67, 111, 100, 101, 25191, 34892, 20986,
     38169]"

definition fetch_usage :: pystr where
  "fetch_usage = ascii ''Please provide a URL.'' @ [10] @ ascii ''Usage: /fetch <url>''"

definition fetching_prefix :: pystr where
  "fetching_prefix = ascii ''Fetching content from: ''"

definition please_wait :: pystr where
  "please_wait = [10, 10] @ ascii ''Please wait...''"

definition truncated_marker :: pystr where
  "truncated_marker = [10, 10] @ ascii ''... (truncated)''"

definition content_prefix :: pystr where
  "content_prefix = ascii ''Content:'' @ [10, 10]"

definition fetch_error_prefix :: pystr where
  "fetch_error_prefix = ascii ''Error fetching URL: ''"

subsection \<open>The backends\<close>

text \<open>
  The three backends are imported inside the handlers' \<open>try\<close> blocks, from modules that
  are collaborators of the handlers; the handlers take them as parameters. An import can
  fail, so a backend is either the exception of the import or the imported function.
  The code-execution backend is an asynchronous generator: the updates it yields, and
  the exception that ends the iteration if there is one.
\<close>

record exec_result =
  stdout :: pystr
  stderr :: pystr
  return_code :: int
  success :: bool

datatype status_update =
  Status_update pystr | Progress_update pystr | Result_update exec_result | Other_update

type_synonym text_backend = "exn + (pystr \<Rightarrow> exn + pystr)"

type_synonym stream_backend = "exn + (pystr \<Rightarrow> status_update list \<times> exn option)"

subsection \<open>fetch command\<close>

text \<open>
  \<open>fetch_command\<close> talks to the transport directly (\<open>reply_text\<close>, no retry). The
  usage reply and the "please wait" reply are outside the \<open>try\<close>; the content reply is
  inside it, the error reply is in the handler.
\<close>

definition fetch_command :: "transport \<Rightarrow> text_backend \<Rightarrow> pystr list \<Rightarrow> unit io" where
  "fetch_command tr fetcher args =
     (case args of
        [] \<Rightarrow> bind_io (transport_call tr (Reply_text fetch_usage)) (\<lambda>_. return_io ())
      | url # _ \<Rightarrow>
          bind_io (transport_call tr (Reply_text (fetching_prefix @ url @ please_wait)))
            (\<lambda>_. try_except
               (bind_io (lift_io fetcher) (\<lambda>fetch_url_content.
                bind_io (lift_io (fetch_url_content url)) (\<lambda>content.
                  let content =
                    (if length content > 4000 then take 4000 content @ truncated_marker
                     else content)
                  in bind_io (transport_call tr (Reply_text (content_prefix @ content)))
                       (\<lambda>_. return_io ()))))
               (\<lambda>e. bind_io (transport_call tr (Reply_text (fetch_error_prefix @ exn_str e)))
                      (\<lambda>_. return_io ()))))"

subsection \<open>deepseek command\<close>

text \<open>
  The finalize step of \<open>deepseek_command\<close> (lines 89 to 94), and the two \<open>except\<close>
  clauses (lines 96 to 104) once \<open>status_msg\<close> is bound to a message.
\<close>

definition deepseek_finalize :: "transport \<Rightarrow> pystr \<Rightarrow> unit io" where
  "deepseek_finalize tr response =
     (if length response > 4000 then
        let chunks = chunks_of 4000 response
        in for_io (py_enumerate chunks) (\<lambda>(i, chunk).
             bind_io (safe_reply tr (answer_part_prefix @ str_nat (i + 1) @ part_suffix @ chunk) 3)
               (\<lambda>_. return_io ()))
      else bind_io (safe_reply tr (answer_prefix @ response) 3) (\<lambda>_. return_io ()))"

definition deepseek_except :: "transport \<Rightarrow> nat \<Rightarrow> exn \<Rightarrow> unit io" where
  "deepseek_except tr status_msg e =
     (if exn_class e = ValueError then
        bind_io (safe_edit tr status_msg deepseek_unconfigured_status 3) (\<lambda>_.
        bind_io (safe_reply tr deepseek_unconfigured_reply 3) (\<lambda>_. return_io ()))
      else
        bind_io (safe_edit tr status_msg deepseek_failed_status 3) (\<lambda>_.
        bind_io (safe_reply tr (error_prefix @ exn_str e @ retry_later_suffix) 3)
          (\<lambda>_. return_io ())))"

text \<open>
  \<open>deepseek_command\<close>. When the placeholder reply raises, \<open>status_msg\<close> was never
  assigned: both \<open>except\<close> clauses read it first (\<open>if status_msg:\<close>), which raises
  UnboundLocalError out of the handler. When the placeholder reply returns a falsy value
  the handler returns.
\<close>

definition deepseek_command :: "transport \<Rightarrow> text_backend \<Rightarrow> pystr list \<Rightarrow> unit io" where
  "deepseek_command tr backend args w =
     (if args = [] then bind_io (safe_reply tr deepseek_usage 3) (\<lambda>_. return_io ()) w
      else
        let question = py_join [32] args
        in (case safe_reply tr deepseek_thinking 3 w of
              (Inl e, w1) \<Rightarrow> (Inl (Exn UnboundLocalError (ascii ''status_msg'')), w1)
            | (Inr None, w1) \<Rightarrow> (Inr (), w1)
            | (Inr (Some status_msg), w1) \<Rightarrow>
                try_except
                  (bind_io (lift_io backend) (\<lambda>query_deepseek.
                   bind_io (safe_edit tr status_msg deepseek_processing 3) (\<lambda>_.
                   bind_io (lift_io (query_deepseek question)) (\<lambda>response.
                   bind_io (safe_edit tr status_msg deepseek_done 3) (\<lambda>_.
                     deepseek_finalize tr response)))))
                  (deepseek_except tr status_msg) w1))"

subsection \<open>claude command\<close>

text \<open>
  The success branch of a result event (lines 139 to 153): the status edit, the output
  with its fallback, and the finalize step.
\<close>

definition claude_output :: "exec_result \<Rightarrow> pystr" where
  "claude_output result =
     (let output = py_strip (stdout result)
      in if output = [] then no_output_text else output)"

definition claude_finalize :: "transport \<Rightarrow> pystr \<Rightarrow> unit io" where
  "claude_finalize tr output =
     (if length output > 3800 then
        let chunks = chunks_of 3800 output
        in for_io (py_enumerate chunks) (\<lambda>(i, chunk).
             bind_io (safe_reply tr
                 (output_part_prefix @ str_nat (i + 1) @ [47] @ str_nat (length chunks) @
                  part_suffix @ chunk) 3)
               (\<lambda>_. return_io ()))
      else bind_io (safe_reply tr (output_prefix @ output) 3) (\<lambda>_. return_io ()))"

text \<open>The failure branch of a result event (lines 155 to 163).\<close>

definition claude_failure :: "transport \<Rightarrow> nat \<Rightarrow> exec_result \<Rightarrow> unit io" where
  "claude_failure tr status_msg result =
     bind_io (safe_edit tr status_msg claude_failed_status 3) (\<lambda>_.
       let error_msg =
             (if py_strip (stderr result) \<noteq> [] then py_strip (stderr result)
              else py_strip (stdout result));
           error_msg =
             (if length error_msg > 3800 then take 3800 error_msg @ cut_marker else error_msg)
       in bind_io (safe_reply tr
              (exec_failed_prefix @ str_int (return_code result) @ exec_failed_mid @ error_msg) 3)
            (\<lambda>_. return_io ()))"

text \<open>The body of the \<open>async for\<close> loop (lines 131 to 163), for one update.\<close>

definition claude_on_update :: "transport \<Rightarrow> nat \<Rightarrow> status_update \<Rightarrow> unit io" where
  "claude_on_update tr status_msg status_update =
     (case status_update of
        Status_update message \<Rightarrow>
          bind_io (safe_edit tr status_msg (status_marker @ message) 3) (\<lambda>_. return_io ())
      | Progress_update message \<Rightarrow>
          bind_io (safe_edit tr status_msg (progress_marker @ message) 3) (\<lambda>_. return_io ())
      | Result_update result \<Rightarrow>
          if success result then
            bind_io (safe_edit tr status_msg claude_done 3) (\<lambda>_.
              claude_finalize tr (claude_output result))
          else claude_failure tr status_msg result
      | Other_update \<Rightarrow> return_io ())"

definition claude_except :: "transport \<Rightarrow> nat \<Rightarrow> exn \<Rightarrow> unit io" where
  "claude_except tr status_msg e =
     bind_io (safe_edit tr status_msg claude_error_status 3) (\<lambda>_.
     bind_io (safe_reply tr (error_prefix @ exn_str e) 3) (\<lambda>_. return_io ()))"

text \<open>
  \<open>claude_command\<close>: as in \<open>deepseek_command\<close>, an exception of the placeholder reply
  reaches \<open>if status_msg:\<close> with the variable unbound. The loop handles every update the
  generator yields, in order; the generator's own exception, if any, is raised when the
  loop asks for the next update.
\<close>

definition claude_command :: "transport \<Rightarrow> stream_backend \<Rightarrow> pystr list \<Rightarrow> unit io" where
  "claude_command tr backend args w =
     (if args = [] then bind_io (safe_reply tr claude_usage 3) (\<lambda>_. return_io ()) w
      else
        let operation = py_join [32] args
        in (case safe_reply tr claude_starting 3 w of
              (Inl e, w1) \<Rightarrow> (Inl (Exn UnboundLocalError (ascii ''status_msg'')), w1)
            | (Inr None, w1) \<Rightarrow> (Inr (), w1)
            | (Inr (Some status_msg), w1) \<Rightarrow>
                try_except
                  (bind_io (lift_io backend) (\<lambda>execute_claude_code_with_status.
                     case execute_claude_code_with_status operation of
                       (updates, ending) \<Rightarrow>
                         bind_io (for_io updates (claude_on_update tr status_msg)) (\<lambda>_.
                           case ending of
                             None \<Rightarrow> return_io ()
                           | Some e \<Rightarrow> lift_io (Inl e))))
                  (claude_except tr status_msg) w1))"

subsection \<open>Reading a trace\<close>

text \<open>
  The texts of the replies the transport delivered, the edits it delivered, every
  request that was attempted, and the backoff waits, each in the order of the trace.
\<close>

fun delivered_reply :: "event \<Rightarrow> pystr list" where
  "delivered_reply (Call (Reply_text t) (Delivered m)) = [t]"
| "delivered_reply _ = []"

definition replies_sent :: "event list \<Rightarrow> pystr list" where
  "replies_sent es = concat (map delivered_reply es)"

fun delivered_edit :: "event \<Rightarrow> (nat \<times> pystr) list" where
  "delivered_edit (Call (Edit_text h t) (Delivered m)) = [(h, t)]"
| "delivered_edit _ = []"

definition edits_made :: "event list \<Rightarrow> (nat \<times> pystr) list" where
  "edits_made es = concat (map delivered_edit es)"

fun attempted :: "event \<Rightarrow> request list" where
  "attempted (Call req r) = [req]"
| "attempted (Sleep n) = []"

definition attempts :: "event list \<Rightarrow> request list" where
  "attempts es = concat (map attempted es)"

fun waited :: "event \<Rightarrow> nat list" where
  "waited (Sleep n) = [n]"
| "waited (Call req r) = []"

definition waits :: "event list \<Rightarrow> nat list" where
  "waits es = concat (map waited es)"

text \<open>A handler starts in a world with no transport call made; \<open>run\<close> gives its trace.\<close>

definition world0 :: world where
  "world0 = \<lparr>calls = 0, trace = []\<rparr>"

definition run :: "unit io \<Rightarrow> event list" where
  "run handler = trace (snd (handler world0))"

definition reliable :: "transport \<Rightarrow> bool" where
  "reliable tr = (\<forall>n req. \<exists>m. tr n req = Delivered m)"

section \<open>JSON values as Python objects\<close>

text \<open>
  What \<open>json\<close> decoding yields: \<open>None\<close>, booleans, ints, floats, strings, lists and
  dicts with string keys. A dict is the list of its items in order (Python dicts have no
  repeated key; a lookup reads the first item with the key). The floats NaN and
  infinity have no value here; they are truthy like every other non-zero float.
\<close>

datatype pyval =
  PyNone | PyBool bool | PyInt int | PyFloat real | PyStr pystr |
  PyList "pyval list" | PyDict "(pystr \<times> pyval) list"

text \<open>Truth value testing (\<open>if v:\<close>, \<open>not v\<close>).\<close>

fun truthy :: "pyval \<Rightarrow> bool" where
  "truthy PyNone = False"
| "truthy (PyBool b) = b"
| "truthy (PyInt i) = (i \<noteq> 0)"
| "truthy (PyFloat x) = (x \<noteq> 0)"
| "truthy (PyStr s) = (s \<noteq> [])"
| "truthy (PyList xs) = (xs \<noteq> [])"
| "truthy (PyDict d) = (d \<noteq> [])"

text \<open>\<open>type(v).__name__\<close>, as CPython's error messages print it.\<close>

fun type_name :: "pyval \<Rightarrow> pystr" where
  "type_name PyNone = ascii ''NoneType''"
| "type_name (PyBool b) = ascii ''bool''"
| "type_name (PyInt i) = ascii ''int''"
| "type_name (PyFloat x) = ascii ''float''"
| "type_name (PyStr s) = ascii ''str''"
| "type_name (PyList xs) = ascii ''list''"
| "type_name (PyDict d) = ascii ''dict''"

text \<open>
  \<open>str(v)\<close>: a string is itself. For any other value \<open>str\<close> is \<open>repr\<close>, whose text
  (float formatting, quoting of nested strings) is a parameter of the model.
\<close>

definition py_str :: "(pyval \<Rightarrow> pystr) \<Rightarrow> pyval \<Rightarrow> pystr" where
  "py_str repr v = (case v of PyStr s \<Rightarrow> s | _ \<Rightarrow> repr v)"

text \<open>
  \<open>len(v)\<close>, iteration over \<open>v\<close>, and the attribute lookup \<open>v.get\<close>, each with the
  exception CPython raises where the type does not support it (39 is the quote
  character of the messages).
\<close>

definition py_len :: "pyval \<Rightarrow> exn + nat" where
  "py_len v =
     (case v of
        PyStr s \<Rightarrow> Inr (length s)
      | PyList xs \<Rightarrow> Inr (length xs)
      | PyDict d \<Rightarrow> Inr (length d)
      | _ \<Rightarrow> Inl (Exn TypeError
            (ascii ''object of type '' @ [39] @ type_name v @ [39] @ ascii '' has no len()'')))"

definition py_iter :: "pyval \<Rightarrow> pyval list" where
  "py_iter v =
     (case v of
        PyStr s \<Rightarrow> map (\<lambda>c. PyStr [c]) s
      | PyList xs \<Rightarrow> xs
      | PyDict d \<Rightarrow> map (\<lambda>(k, x). PyStr k) d
      | _ \<Rightarrow> [])"

definition no_get_attribute :: "pyval \<Rightarrow> exn" where
  "no_get_attribute v =
     Exn AttributeError
       ([39] @ type_name v @ [39] @ ascii '' object has no attribute '' @ [39] @ ascii ''get'' @
        [39])"

text \<open>\<open>v.get(key)\<close> and \<open>v.get(key, default)\<close>.\<close>

definition py_get_default :: "pyval \<Rightarrow> pystr \<Rightarrow> pyval \<Rightarrow> exn + pyval" where
  "py_get_default v key dflt =
     (case v of
        PyDict d \<Rightarrow> Inr (case map_of d key of None \<Rightarrow> dflt | Some x \<Rightarrow> x)
      | _ \<Rightarrow> Inl (no_get_attribute v))"

definition py_get :: "pyval \<Rightarrow> pystr \<Rightarrow> exn + pyval" where
  "py_get v key = py_get_default v key PyNone"

text \<open>
  The items of \<open>sep.join(parts)\<close>: the first item that is not a string raises TypeError
  with its position.
\<close>

fun str_items :: "nat \<Rightarrow> pyval list \<Rightarrow> exn + pystr list" where
  "str_items i [] = Inr []"
| "str_items i (PyStr s # vs) =
     (case str_items (i + 1) vs of Inl e \<Rightarrow> Inl e | Inr ss \<Rightarrow> Inr (s # ss))"
| "str_items i (v # vs) =
     Inl (Exn TypeError
       (ascii ''sequence item '' @ str_nat i @ ascii '': expected str instance, '' @
        type_name v @ ascii '' found''))"

section \<open>The code-execution adapter (services/claude_code.py)\<close>

text \<open>
  The loop of \<open>_extract_result_from_response\<close> over the content blocks (lines 117 to
  124). A block that is not a dict has no \<open>get\<close>. A text block appends its \<open>"text"\<close>
  (the empty string when the key is absent), whatever its type; a tool-use block appends
  \<open>str\<close> of its \<open>"content"\<close> when that is truthy and nothing otherwise.
\<close>

fun collect_parts :: "(pyval \<Rightarrow> pystr) \<Rightarrow> pyval list \<Rightarrow> pyval list \<Rightarrow> exn + pyval list" where
  "collect_parts repr [] result_parts = Inr result_parts"
| "collect_parts repr (content_block # rest) result_parts =
     (case content_block of
        PyDict d \<Rightarrow>
          if map_of d (ascii ''type'') = Some (PyStr (ascii ''text'')) then
            collect_parts repr rest
              (result_parts @ [case map_of d (ascii ''text'') of None \<Rightarrow> PyStr [] | Some v \<Rightarrow> v])
          else if map_of d (ascii ''type'') = Some (PyStr (ascii ''tool_use'')) then
            (let tool_result =
               (case map_of d (ascii ''content'') of None \<Rightarrow> PyStr [] | Some v \<Rightarrow> v)
             in if truthy tool_result
                then collect_parts repr rest (result_parts @ [PyStr (py_str repr tool_result)])
                else collect_parts repr rest result_parts)
          else collect_parts repr rest result_parts
      | _ \<Rightarrow> Inl (no_get_attribute content_block))"

text \<open>
  The body of the \<open>try\<close> of \<open>_extract_result_from_response\<close> (lines 115 to 128), with
  the exception it may raise, and the function itself, whose \<open>except Exception\<close> turns
  the exception into a text. The parameter is annotated \<open>data: dict\<close>.
\<close>

definition extract_body :: "(pyval \<Rightarrow> pystr) \<Rightarrow> (pystr \<times> pyval) list \<Rightarrow> exn + pystr" where
  "extract_body repr data =
     (case map_of data (ascii ''content'') of
        None \<Rightarrow> Inr (ascii ''No response content'')
      | Some content \<Rightarrow>
          (case py_len content of
             Inl e \<Rightarrow> Inl e
           | Inr n \<Rightarrow>
               if n > 0 then
                 (case collect_parts repr (py_iter content) [] of
                    Inl e \<Rightarrow> Inl e
                  | Inr result_parts \<Rightarrow>
                      if result_parts \<noteq> [] then
                        (case str_items 0 result_parts of
                           Inl e \<Rightarrow> Inl e
                         | Inr ss \<Rightarrow> Inr (py_join [10] ss))
                      else Inr (ascii ''Operation completed''))
               else Inr (ascii ''No response content'')))"

definition extract_result_from_response :: "(pyval \<Rightarrow> pystr) \<Rightarrow> (pystr \<times> pyval) list \<Rightarrow> pystr" where
  "extract_result_from_response repr data =
     (case extract_body repr data of
        Inl e \<Rightarrow> ascii ''Error parsing response: '' @ exn_str e
      | Inr s \<Rightarrow> s)"

text \<open>
  The configuration module and the HTTP client are collaborators. The HTTP exchange is
  an oracle from the request to what \<open>session.post\<close> does: it raises, or it yields a
  response with a status, a body text and a decoded JSON body (each of the two reads may
  raise instead).
\<close>

record config =
  CLAUDE_API_KEY :: "pystr option"
  CLAUDE_API_URL :: pystr
  CLAUDE_MODEL :: pystr
  CLAUDE_WORK_DIR :: pystr
  CLAUDE_TIMEOUT :: int

record http_request =
  req_url :: pystr
  req_api_key :: pystr
  req_model :: pystr
  req_content :: pystr
  req_timeout :: int

record http_response =
  resp_status :: int
  resp_text :: "exn + pystr"
  resp_json :: "exn + (pystr \<times> pyval) list"

datatype http_outcome = Post_raises exn | Responds http_response

text \<open>
  \<open>execute_claude_code(operation, timeout=None)\<close>. The key check is outside the \<open>try\<close>;
  inside it an \<open>aiohttp.ClientError\<close> is wrapped into a plain \<open>Exception\<close> and every other
  exception, the status error included, is re-raised.
\<close>

definition execute_claude_code ::
  "(pyval \<Rightarrow> pystr) \<Rightarrow> config \<Rightarrow> (http_request \<Rightarrow> http_outcome) \<Rightarrow> pystr \<Rightarrow> int option \<Rightarrow>
   exn + exec_result" where
  "execute_claude_code repr config post operation timeout =
     (let timeout = (case timeout of None \<Rightarrow> CLAUDE_TIMEOUT config | Some t \<Rightarrow> t)
      in case CLAUDE_API_KEY config of
           None \<Rightarrow> Inl (Exn ValueError (ascii ''CLAUDE_API_KEY is not configured''))
         | Some key \<Rightarrow>
             if key = [] then Inl (Exn ValueError (ascii ''CLAUDE_API_KEY is not configured''))
             else
               (case
                  (case post
                          \<lparr>req_url = CLAUDE_API_URL config, req_api_key = key,
                           req_model = CLAUDE_MODEL config,
                           req_content =
                             ascii ''Please execute this operation in the directory '' @
                             CLAUDE_WORK_DIR config @ ascii '': '' @ operation,
                           req_timeout = timeout\<rparr> of
                     Post_raises e \<Rightarrow> Inl e
                   | Responds response \<Rightarrow>
                       if resp_status response \<noteq> 200 then
                         (case resp_text response of
                            Inl e \<Rightarrow> Inl e
                          | Inr error_text \<Rightarrow>
                              Inl (Exn Exception
                                (ascii ''API returned status '' @ str_int (resp_status response) @
                                 ascii '': '' @ error_text)))
                       else
                         (case resp_json response of
                            Inl e \<Rightarrow> Inl e
                          | Inr data \<Rightarrow>
                              Inr \<lparr>stdout = extract_result_from_response repr data,
                                   stderr = [], return_code = 0, success = True\<rparr>)) of
                  Inl e \<Rightarrow>
                    if exn_class e = ClientError
                    then Inl (Exn Exception (ascii ''Network error: '' @ exn_str e))
                    else Inl e
                | Inr result \<Rightarrow> Inr result))"


section \<open>The tool dispatch facade (mcp_server.py)\<close>

text \<open>
  A tool result item, \<open>TextContent(type=..., text=...)\<close>; what the Telegram client
  returns for a sent message; and an update as \<open>get_updates\<close> reads it (\<open>username\<close>
  and \<open>text\<close> may be \<open>None\<close>, the date is given by its \<open>str\<close>).
\<close>

datatype text_content = TextContent (content_type: pystr) (content_text: pystr)

record sent_message =
  sent_chat_id :: int
  sent_message_id :: int

record tg_user =
  user_first_name :: pystr
  user_username :: "pystr option"

record tg_message =
  msg_from_user :: "tg_user option"
  msg_chat_id :: int
  msg_text :: "pystr option"
  msg_date :: pystr

record tg_update =
  upd_message :: "tg_message option"

text \<open>
  The Telegram client is a collaborator: what \<open>bot.send_message(chat_id, text)\<close> and
  \<open>bot.get_updates(limit)\<close> do is an oracle. The environment of a call is the token
  variable, whether the global \<open>bot\<close> is already set, and whether the name
  \<open>get_updates\<close> is bound: when the file runs as a script, the server loop of line 118
  runs before line 121 defines \<open>get_updates\<close>.
\<close>

record telegram =
  api_send :: "pyval \<Rightarrow> pyval \<Rightarrow> exn + sent_message"
  api_updates :: "pyval \<Rightarrow> exn + tg_update list"

record mcp_env =
  TELEGRAM_BOT_TOKEN :: "pystr option"
  bot_set :: bool
  get_updates_bound :: bool

text \<open>The classes \<open>except TelegramError\<close> catches.\<close>

definition is_telegram_error :: "exn \<Rightarrow> bool" where
  "is_telegram_error e =
     (exn_class e = TelegramError \<or> exn_class e = NetworkError \<or> exn_class e = TimedOut)"

text \<open>\<open>get_bot()\<close>: the global is set on the first successful call.\<close>

definition get_bot :: "mcp_env \<Rightarrow> (exn + unit) \<times> mcp_env" where
  "get_bot env =
     (if bot_set env then (Inr (), env)
      else
        (case TELEGRAM_BOT_TOKEN env of
           None \<Rightarrow>
             (Inl (Exn ValueError (ascii ''TELEGRAM_BOT_TOKEN environment variable is required'')),
              env)
         | Some token \<Rightarrow>
             if token = [] then
               (Inl (Exn ValueError
                  (ascii ''TELEGRAM_BOT_TOKEN environment variable is required'')), env)
             else (Inr (), env\<lparr>bot_set := True\<rparr>)))"

definition text_item :: "pystr \<Rightarrow> text_content list" where
  "text_item t = [TextContent (ascii ''text'') t]"

text \<open>
  \<open>send_message(arguments)\<close>. The two \<open>arguments.get\<close> calls and the presence check are
  outside the \<open>try\<close>; \<open>get_bot\<close> and the send are inside it, and only a
  \<open>TelegramError\<close> is caught there.
\<close>

definition send_message ::
  "telegram \<Rightarrow> mcp_env \<Rightarrow> pyval \<Rightarrow> (exn + text_content list) \<times> mcp_env" where
  "send_message api env arguments =
     (case py_get arguments (ascii ''chat_id'') of
        Inl e \<Rightarrow> (Inl e, env)
      | Inr chat_id \<Rightarrow>
          (case py_get arguments (ascii ''text'') of
             Inl e \<Rightarrow> (Inl e, env)
           | Inr text \<Rightarrow>
               if \<not> truthy chat_id \<or> \<not> truthy text then
                 (Inr (text_item (ascii ''Error: chat_id and text are required'')), env)
               else
                 (case get_bot env of
                    (Inl e, env') \<Rightarrow>
                      (if is_telegram_error e
                       then Inr (text_item (ascii ''Telegram error: '' @ exn_str e))
                       else Inl e, env')
                  | (Inr telegram_bot, env') \<Rightarrow>
                      (case api_send api chat_id text of
                         Inl e \<Rightarrow>
                           (if is_telegram_error e
                            then Inr (text_item (ascii ''Telegram error: '' @ exn_str e))
                            else Inl e, env')
                       | Inr message \<Rightarrow>
                           (Inr (text_item
                              (ascii ''Message sent successfully!'' @ [10] @ ascii ''Chat ID: '' @
                               str_int (sent_chat_id message) @ [10] @ ascii ''Message ID: '' @
                               str_int (sent_message_id message))), env')))))"

text \<open>
  \<open>updates[-limit:]\<close>: the unary minus and the slice start, with the TypeError CPython
  raises for a limit that is not an integer (a bool is one).
\<close>

definition py_slice_from :: "int \<Rightarrow> 'a list \<Rightarrow> 'a list" where
  "py_slice_from start xs =
     (if start < 0 then drop (nat (int (length xs) + start)) xs else drop (nat start) xs)"

definition last_items :: "pyval \<Rightarrow> 'a list \<Rightarrow> exn + 'a list" where
  "last_items limit xs =
     (case limit of
        PyInt n \<Rightarrow> Inr (py_slice_from (- n) xs)
      | PyBool b \<Rightarrow> Inr (py_slice_from (- (if b then 1 else 0)) xs)
      | PyFloat x \<Rightarrow>
          Inl (Exn TypeError
            (ascii ''slice indices must be integers or None or have an __index__ method''))
      | _ \<Rightarrow>
          Inl (Exn TypeError
            (ascii ''bad operand type for unary -: '' @ [39] @ type_name limit @ [39])))"

text \<open>\<open>str\<close> of an optional string inside an f-string.\<close>

definition str_optional :: "pystr option \<Rightarrow> pystr" where
  "str_optional s = (case s of None \<Rightarrow> ascii ''None'' | Some t \<Rightarrow> t)"

text \<open>
  The loop of \<open>get_updates\<close> (lines 133 to 139): an update without a message is
  skipped; a message without a sender has no \<open>first_name\<close>.
\<close>

fun render_updates :: "tg_update list \<Rightarrow> pystr \<Rightarrow> exn + pystr" where
  "render_updates [] result = Inr result"
| "render_updates (update # rest) result =
     (case upd_message update of
        None \<Rightarrow> render_updates rest result
      | Some msg \<Rightarrow>
          (case msg_from_user msg of
             None \<Rightarrow>
               Inl (Exn AttributeError
                 ([39] @ ascii ''NoneType'' @ [39] @ ascii '' object has no attribute '' @ [39] @
                  ascii ''first_name'' @ [39]))
           | Some from_user \<Rightarrow>
               render_updates rest
                 (result @
                  ascii ''From: '' @ user_first_name from_user @ ascii '' (@'' @
                  str_optional (user_username from_user) @ ascii '')'' @ [10] @
                  ascii ''Chat ID: '' @ str_int (msg_chat_id msg) @ [10] @
                  ascii ''Text: '' @ str_optional (msg_text msg) @ [10] @
                  ascii ''Date: '' @ msg_date msg @ [10, 10])))"

text \<open>\<open>get_updates(arguments)\<close>.\<close>

definition get_updates ::
  "telegram \<Rightarrow> mcp_env \<Rightarrow> pyval \<Rightarrow> (exn + text_content list) \<times> mcp_env" where
  "get_updates api env arguments =
     (case py_get_default arguments (ascii ''limit'') (PyInt 10) of
        Inl e \<Rightarrow> (Inl e, env)
      | Inr limit \<Rightarrow>
          (case get_bot env of
             (Inl e, env') \<Rightarrow>
               (if is_telegram_error e
                then Inr (text_item (ascii ''Telegram error: '' @ exn_str e))
                else Inl e, env')
           | (Inr telegram_bot, env') \<Rightarrow>
               (case
                  (case api_updates api limit of
                     Inl e \<Rightarrow> Inl e
                   | Inr updates \<Rightarrow>
                       if updates = [] then Inr (text_item (ascii ''No recent messages''))
                       else
                         (case last_items limit updates of
                            Inl e \<Rightarrow> Inl e
                          | Inr shown \<Rightarrow>
                              (case render_updates shown (ascii ''Recent messages:'' @ [10, 10]) of
                                 Inl e \<Rightarrow> Inl e
                               | Inr result \<Rightarrow> Inr (text_item result)))) of
                  Inl e \<Rightarrow>
                    (if is_telegram_error e
                     then Inr (text_item (ascii ''Telegram error: '' @ exn_str e))
                     else Inl e, env')
                | Inr items \<Rightarrow> (Inr items, env'))))"

text \<open>
  \<open>call_tool(name, arguments)\<close>: the dispatch, inside \<open>try ... except Exception\<close>. Calling
  \<open>get_updates\<close> while the name is unbound raises NameError, inside the \<open>try\<close>.
\<close>

definition call_tool ::
  "telegram \<Rightarrow> mcp_env \<Rightarrow> pystr \<Rightarrow> pyval \<Rightarrow> (exn + text_content list) \<times> mcp_env" where
  "call_tool api env name arguments =
     (case
        (if name = ascii ''send_telegram_message'' then send_message api env arguments
         else if name = ascii ''get_telegram_updates'' then
           (if get_updates_bound env then get_updates api env arguments
            else
              (Inl (Exn NameError
                 (ascii ''name '' @ [39] @ ascii ''get_updates'' @ [39] @ ascii '' is not defined'')),
               env))
         else (Inl (Exn ValueError (ascii ''Unknown tool: '' @ name)), env)) of
        (Inl e, env') \<Rightarrow> (Inr (text_item (ascii ''Error: '' @ exn_str e)), env')
      | (Inr items, env') \<Rightarrow> (Inr items, env'))"


section \<open>Notions used to state the properties\<close>

text \<open>
  The handle a successful transport call returns, and the world after one transport
  call. With a transport that delivers every request a handler's final world is a fold
  of \<open>deliver\<close> over the requests it makes.
\<close>

definition handle_of :: "outcome \<Rightarrow> nat" where
  "handle_of r = (case r of Delivered m \<Rightarrow> m | Raises e \<Rightarrow> 0)"

definition deliver :: "transport \<Rightarrow> request \<Rightarrow> world \<Rightarrow> world" where
  "deliver tr req w = \<lparr>calls = calls w + 1, trace = trace w @ [Call req (tr (calls w) req)]\<rparr>"

text \<open>A transport that delivers every reply (whatever it does with edits).\<close>

definition delivers_replies :: "transport \<Rightarrow> bool" where
  "delivers_replies tr = (\<forall>n t. \<exists>m. tr n (Reply_text t) = Delivered m)"

text \<open>
  A transport on which every edit raises a transient error, and the world after the
  three attempts and two waits of a primitive whose retries are used up.
\<close>

definition edits_fail_transiently :: "transport \<Rightarrow> bool" where
  "edits_fail_transiently tr = (\<forall>n h t. \<exists>e. tr n (Edit_text h t) = Raises e \<and> transient e)"

definition exhaust :: "transport \<Rightarrow> request \<Rightarrow> world \<Rightarrow> world" where
  "exhaust tr req w =
     \<lparr>calls = calls w + 3,
      trace = trace w @
        [Call req (tr (calls w) req), Sleep 1, Call req (tr (calls w + 1) req), Sleep 2,
         Call req (tr (calls w + 2) req)]\<rparr>"

fun reply_text_of :: "request \<Rightarrow> pystr list" where
  "reply_text_of (Reply_text t) = [t]"
| "reply_text_of (Edit_text h t) = []"

text \<open>
  Replies that carry a position label in front of their body: the i-th reply is the
  i-th label followed by the i-th body. The labels are those of line 92 (position) and
  of line 150 (position and number of chunks).
\<close>

definition labelled :: "(nat \<Rightarrow> pystr) \<Rightarrow> pystr list \<Rightarrow> pystr list" where
  "labelled label bodies = map (\<lambda>(i, body). label i @ body) (py_enumerate bodies)"

text \<open>
  Reading labelled replies back: whether reply \<open>k\<close> starts with label \<open>k\<close>, and the
  replies with their labels cut off.
\<close>

definition strip_labels :: "(nat \<Rightarrow> pystr) \<Rightarrow> pystr list \<Rightarrow> pystr list" where
  "strip_labels label replies =
     map (\<lambda>k. drop (length (label k)) (replies ! k)) [0..<length replies]"

definition carries_labels :: "(nat \<Rightarrow> pystr) \<Rightarrow> pystr list \<Rightarrow> bool" where
  "carries_labels label replies =
     list_all (\<lambda>k. take (length (label k)) (replies ! k) = label k) [0..<length replies]"

definition answer_label :: "nat \<Rightarrow> pystr" where
  "answer_label i = answer_part_prefix @ str_nat (i + 1) @ part_suffix"

definition output_label :: "nat \<Rightarrow> nat \<Rightarrow> pystr" where
  "output_label cnt i =
     output_part_prefix @ str_nat (i + 1) @ [47] @ str_nat cnt @ part_suffix"

text \<open>
  The reply texts of the two finalize steps and of the failure branch, and the requests
  one update of the code-execution stream causes when every request is delivered. They
  are shown below to be what the handlers send; they are not read by the handlers.
\<close>

definition deepseek_replies :: "pystr \<Rightarrow> pystr list" where
  "deepseek_replies response =
     (if length response > 4000 then labelled answer_label (chunks_of 4000 response)
      else [answer_prefix @ response])"

definition claude_replies :: "pystr \<Rightarrow> pystr list" where
  "claude_replies output =
     (if length output > 3800
      then labelled (output_label (length (chunks_of 3800 output))) (chunks_of 3800 output)
      else [output_prefix @ output])"

definition claude_failure_text :: "exec_result \<Rightarrow> pystr" where
  "claude_failure_text result =
     (let error_msg =
             (if py_strip (stderr result) \<noteq> [] then py_strip (stderr result)
              else py_strip (stdout result));
           error_msg =
             (if length error_msg > 3800 then take 3800 error_msg @ cut_marker else error_msg)
      in exec_failed_prefix @ str_int (return_code result) @ exec_failed_mid @ error_msg)"

fun claude_requests :: "nat \<Rightarrow> status_update \<Rightarrow> request list" where
  "claude_requests h (Status_update message) = [Edit_text h (status_marker @ message)]"
| "claude_requests h (Progress_update message) = [Edit_text h (progress_marker @ message)]"
| "claude_requests h (Result_update result) =
     (if success result
      then Edit_text h claude_done # map Reply_text (claude_replies (claude_output result))
      else [Edit_text h claude_failed_status, Reply_text (claude_failure_text result)])"
| "claude_requests h Other_update = []"

fun is_result :: "status_update \<Rightarrow> bool" where
  "is_result (Result_update result) = True"
| "is_result u = False"

text \<open>
  Content blocks as the extraction expects them: every block is a dict, and the
  \<open>"text"\<close> of a text block, when present, is a string. For such a block, the parts it
  adds to the result: a text block adds its text (the empty string when it has none); a
  tool-use block adds \<open>str\<close> of its \<open>"content"\<close> payload when the payload is truthy
  and nothing when it is absent or falsy; any other block adds nothing.
\<close>

fun text_block_ok :: "pyval \<Rightarrow> bool" where
  "text_block_ok (PyDict d) =
     (if map_of d (ascii ''type'') = Some (PyStr (ascii ''text''))
      then (case map_of d (ascii ''text'') of None \<Rightarrow> True | Some (PyStr s) \<Rightarrow> True | Some v \<Rightarrow> False)
      else True)"
| "text_block_ok v = False"

fun block_parts :: "(pyval \<Rightarrow> pystr) \<Rightarrow> pyval \<Rightarrow> pystr list" where
  "block_parts repr (PyDict d) =
     (if map_of d (ascii ''type'') = Some (PyStr (ascii ''text'')) then
        (case map_of d (ascii ''text'') of None \<Rightarrow> [[]] | Some (PyStr s) \<Rightarrow> [s] | Some v \<Rightarrow> [])
      else if map_of d (ascii ''type'') = Some (PyStr (ascii ''tool_use'')) then
        (case map_of d (ascii ''content'') of
           None \<Rightarrow> []
         | Some payload \<Rightarrow> if truthy payload then [py_str repr payload] else [])
      else [])"
| "block_parts repr v = []"

text \<open>A configuration with an API key, for the concrete runs below.\<close>

definition demo_config :: config where
  "demo_config =
     \<lparr>CLAUDE_API_KEY = Some (ascii ''k''), CLAUDE_API_URL = ascii ''https://api'',
      CLAUDE_MODEL = ascii ''m'', CLAUDE_WORK_DIR = ascii ''/tmp'', CLAUDE_TIMEOUT = 300\<rparr>"

text \<open>
  A Telegram client whose calls fail with Telegram errors, and an environment with the
  bot set, for the concrete runs below.
\<close>

definition demo_telegram :: telegram where
  "demo_telegram =
     \<lparr>api_send = (\<lambda>chat_id text. Inl (Exn TelegramError (ascii ''Chat not found''))),
      api_updates = (\<lambda>limit. Inl (Exn NetworkError (ascii ''Bad Gateway'')))\<rparr>"

definition demo_env :: mcp_env where
  "demo_env =
     \<lparr>TELEGRAM_BOT_TOKEN = Some (ascii ''token''), bot_set = True, get_updates_bound = True\<rparr>"

section \<open>Chunking\<close>

lemma py_range_cons:
  "0 < step \<Longrightarrow> i < stop \<Longrightarrow> py_range i stop step = i # py_range (i + step) stop step"
  by (subst py_range.simps) simp

lemma py_range_nil: "stop \<le> i \<Longrightarrow> py_range i stop step = []"
  by (subst py_range.simps) simp

lemma div_add_step: "0 < (t::nat) \<Longrightarrow> (m + t) div t = Suc (m div t)"
  by simp

lemma ceil_step:
  fixes t d :: nat
  assumes "0 < t" "0 < d"
  shows "(d + t - 1) div t = Suc ((d - t + t - 1) div t)"
proof (cases "t \<le> d")
  case True
  define m where "m = d - t + t - 1"
  have "d + t - 1 = m + t" using True assms by (simp add: m_def)
  then show ?thesis using div_add_step [OF assms(1), of m] by (simp add: m_def)
next
  case False
  define m where "m = d - 1"
  have m: "m < t" using False assms by (simp add: m_def)
  have "d + t - 1 = m + t" using assms by (simp add: m_def)
  then have "(d + t - 1) div t = Suc 0" using div_add_step [OF assms(1), of m] m by simp
  moreover have "d - t + t - 1 = t - 1" using False by simp
  ultimately show ?thesis using assms by simp
qed

lemma ceiling_div:
  fixes n t :: nat
  assumes "0 < t"
  shows "int ((n + t - 1) div t) = \<lceil>real n / real t\<rceil>"
proof -
  define k where "k = (n + t - 1) div t"
  have k: "k * t + (n + t - 1) mod t = n + t - 1" by (simp add: k_def)
  have "(n + t - 1) mod t < t" using assms by simp
  with k have lo: "n \<le> k * t" and hi: "k * t < n + t" by arith+
  have "real n \<le> real k * real t" using lo by (metis of_nat_le_iff of_nat_mult)
  then have a: "real n / real t \<le> real k" using assms by (simp add: pos_divide_le_eq)
  have "real k * real t < real n + real t" using hi by (metis of_nat_less_iff of_nat_mult of_nat_add)
  then have "(real k - 1) * real t < real n" by (simp add: algebra_simps)
  then have b: "real k - 1 < real n / real t" using assms by (simp add: pos_less_divide_eq)
  have "\<lceil>real n / real t\<rceil> = int k"
    by (rule ceiling_unique) (use a b in simp_all)
  then show ?thesis by (simp add: k_def)
qed

lemma concat_chunks_from:
  "0 < width \<Longrightarrow>
   concat (map (\<lambda>i. take width (drop i s)) (py_range i (length s) width)) = drop i s"
proof (induction i "length s" width rule: py_range.induct)
  case (1 i step)
  show ?case
  proof (cases "i < length s")
    case True
    have "take step (drop i s) @ drop (i + step) s = drop i s"
      by (metis add.commute append_take_drop_id drop_drop)
    with 1 True show ?thesis by (simp add: py_range_cons)
  next
    case False
    then show ?thesis by (simp add: py_range_nil)
  qed
qed

lemma concat_chunks_of: "0 < width \<Longrightarrow> concat (chunks_of width s) = s"
  using concat_chunks_from [of width s 0] by (simp add: chunks_of_def)

lemma py_range_arith:
  "0 < step \<Longrightarrow>
   py_range i stop step = map (\<lambda>k. i + k * step) [0..<(stop - i + step - 1) div step]"
proof (induction i stop step rule: py_range.induct)
  case (1 i stop step)
  show ?case
  proof (cases "i < stop")
    case True
    define m where "m = (stop - (i + step) + step - 1) div step"
    have cnt: "(stop - i + step - 1) div step = Suc m"
      using ceil_step [of step "stop - i"] True 1(2) by (simp add: m_def)
    have "py_range i stop step = i # map (\<lambda>k. i + step + k * step) [0..<m]"
      using 1 True by (simp add: py_range_cons m_def)
    also have "map (\<lambda>k. i + step + k * step) [0..<m] = map (\<lambda>k. i + k * step) [Suc 0..<Suc m]"
      by (simp add: map_Suc_upt [symmetric] del: upt_Suc)
    also have "i # map (\<lambda>k. i + k * step) [Suc 0..<Suc m] = map (\<lambda>k. i + k * step) [0..<Suc m]"
      by (simp add: upt_conv_Cons del: upt_Suc)
    finally show ?thesis by (simp only: cnt)
  next
    case False
    then have "(stop - i + step - 1) div step = 0" using 1(2) by simp
    with False show ?thesis by (simp add: py_range_nil)
  qed
qed

lemma chunks_of_positions:
  "0 < width \<Longrightarrow>
   chunks_of width s =
     map (\<lambda>k. take width (drop (k * width) s)) [0..<(length s + width - 1) div width]"
  by (simp add: chunks_of_def py_range_arith comp_def)

lemma length_chunks_of:
  "0 < width \<Longrightarrow> length (chunks_of width s) = (length s + width - 1) div width"
  by (simp add: chunks_of_positions)

lemma length_chunks_ceiling:
  "0 < width \<Longrightarrow> int (length (chunks_of width s)) = \<lceil>real (length s) / real width\<rceil>"
  using ceiling_div [of width "length s"] by (simp add: length_chunks_of)

lemma dropWhile_replicate_keep: "\<not> P c \<Longrightarrow> dropWhile P (replicate n c) = replicate n c"
  by (cases n) simp_all

lemma py_strip_replicate: "\<not> py_isspace c \<Longrightarrow> py_strip (replicate n c) = replicate n c"
  by (simp add: py_strip_def dropWhile_replicate_keep)

lemma reliable_always: "reliable (\<lambda>n req. Delivered n)"
  by (simp add: reliable_def)

lemma length_labelled: "length (labelled label bodies) = length bodies"
  by (simp add: labelled_def py_enumerate_def)

lemma nth_labelled:
  "k < length bodies \<Longrightarrow> labelled label bodies ! k = label k @ bodies ! k"
  by (simp add: labelled_def py_enumerate_def)

lemma carries_labels_labelled: "carries_labels label (labelled label bodies)"
  by (simp add: carries_labels_def list_all_iff length_labelled nth_labelled)

lemma strip_labels_labelled: "strip_labels label (labelled label bodies) = bodies"
  by (rule nth_equalityI) (simp_all add: strip_labels_def length_labelled nth_labelled)

section \<open>Handlers over a transport that delivers\<close>

lemma transport_call_reliable:
  "reliable tr \<Longrightarrow> transport_call tr req w = (Inr (handle_of (tr (calls w) req)), deliver tr req w)"
proof -
  assume "reliable tr"
  then obtain m where "tr (calls w) req = Delivered m" unfolding reliable_def by blast
  then show ?thesis by (simp add: transport_call_def deliver_def handle_of_def)
qed

lemma reliable_delivers_replies: "reliable tr \<Longrightarrow> delivers_replies tr"
  by (simp add: reliable_def delivers_replies_def)

lemma transport_call_reply:
  assumes "delivers_replies tr"
  shows "transport_call tr (Reply_text t) w =
    (Inr (handle_of (tr (calls w) (Reply_text t))), deliver tr (Reply_text t) w)"
proof -
  obtain m where "tr (calls w) (Reply_text t) = Delivered m"
    using assms unfolding delivers_replies_def by blast
  then show ?thesis by (simp add: transport_call_def deliver_def handle_of_def)
qed

lemma upt_3: "[0..<3] = [0, 1, 2]"
  by (simp add: upt_rec)

lemma safe_reply_delivered:
  "delivers_replies tr \<Longrightarrow>
   safe_reply tr t 3 w =
     (Inr (Some (handle_of (tr (calls w) (Reply_text t)))), deliver tr (Reply_text t) w)"
  by (simp add: safe_reply_def upt_3 transport_call_reply)

lemma safe_edit_reliable:
  "reliable tr \<Longrightarrow>
   safe_edit tr h t 3 w = (Inr (Some (handle_of (tr (calls w) (Edit_text h t)))), deliver tr (Edit_text h t) w)"
  by (simp add: safe_edit_def upt_3 transport_call_reliable)

lemma reply_unit_delivered:
  "delivers_replies tr \<Longrightarrow>
   bind_io (safe_reply tr t 3) (\<lambda>_. return_io ()) w = (Inr (), deliver tr (Reply_text t) w)"
  by (simp add: bind_io_def return_io_def safe_reply_delivered)

lemma edit_unit_reliable:
  "reliable tr \<Longrightarrow>
   bind_io (safe_edit tr h t 3) (\<lambda>_. return_io ()) w = (Inr (), deliver tr (Edit_text h t) w)"
  by (simp add: bind_io_def return_io_def safe_edit_reliable)

lemma for_io_fold:
  "(\<And>x w. body x w = (Inr (), step x w)) \<Longrightarrow> for_io xs body w = (Inr (), fold step xs w)"
  by (induction xs arbitrary: w) simp_all

lemma replies_sent_append [simp]: "replies_sent (xs @ ys) = replies_sent xs @ replies_sent ys"
  by (simp add: replies_sent_def)

lemma deepseek_finalize_reliable:
  assumes "delivers_replies tr"
  shows "deepseek_finalize tr response w =
     (Inr (), fold (\<lambda>t. deliver tr (Reply_text t))
        (if length response > 4000 then labelled answer_label (chunks_of 4000 response)
         else [answer_prefix @ response]) w)"
proof (cases "length response > 4000")
  case True
  have "for_io (py_enumerate (chunks_of 4000 response)) (\<lambda>(i, chunk).
             bind_io (safe_reply tr (answer_part_prefix @ str_nat (i + 1) @ part_suffix @ chunk) 3)
               (\<lambda>_. return_io ())) w
     = (Inr (), fold (\<lambda>(i, chunk). deliver tr (Reply_text (answer_label i @ chunk))) (py_enumerate (chunks_of 4000 response)) w)"
    by (rule for_io_fold) (simp add: split_def reply_unit_delivered [OF assms] answer_label_def)
  then show ?thesis using True
    by (simp add: deepseek_finalize_def labelled_def fold_map comp_def split_def)
next
  case False
  then show ?thesis by (simp add: deepseek_finalize_def reply_unit_delivered [OF assms])
qed

lemma attempts_append [simp]: "attempts (xs @ ys) = attempts xs @ attempts ys"
  by (simp add: attempts_def)

lemma waits_append [simp]: "waits (xs @ ys) = waits xs @ waits ys"
  by (simp add: waits_def)

lemma replies_deliver:
  assumes "delivers_replies tr"
  shows "replies_sent (trace (deliver tr req w)) = replies_sent (trace w) @ reply_text_of req"
proof (cases req)
  case (Reply_text t)
  obtain m where "tr (calls w) (Reply_text t) = Delivered m"
    using assms unfolding delivers_replies_def by blast
  with Reply_text show ?thesis by (simp add: deliver_def replies_sent_def)
next
  case (Edit_text h t)
  then show ?thesis
    by (cases "tr (calls w) (Edit_text h t)") (simp_all add: deliver_def replies_sent_def)
qed

lemma replies_fold_deliver:
  "delivers_replies tr \<Longrightarrow>
   replies_sent (trace (fold (deliver tr) reqs w)) =
     replies_sent (trace w) @ concat (map reply_text_of reqs)"
  by (induction reqs arbitrary: w) (simp_all add: replies_deliver)

lemma reply_texts_map_Reply: "concat (map (reply_text_of \<circ> Reply_text) ts) = ts"
  by (induction ts) simp_all

lemma fold_deliver_replies:
  "fold (\<lambda>t. deliver tr (Reply_text t)) ts w = fold (deliver tr) (map Reply_text ts) w"
  by (simp add: fold_map comp_def)

lemma deepseek_finalize_world:
  assumes "delivers_replies tr"
  shows "deepseek_finalize tr response w =
     (Inr (), fold (deliver tr) (map Reply_text (deepseek_replies response)) w)"
  unfolding deepseek_replies_def
  using deepseek_finalize_reliable [OF assms, of response w]
  by (simp only: fold_deliver_replies)

lemma deepseek_success_world:
  assumes "reliable tr" "args \<noteq> []" "q (py_join [32] args) = Inr response"
  shows "deepseek_command tr (Inr q) args w =
    (Inr (), fold (deliver tr)
       ([Reply_text deepseek_thinking,
         Edit_text (handle_of (tr (calls w) (Reply_text deepseek_thinking))) deepseek_processing,
         Edit_text (handle_of (tr (calls w) (Reply_text deepseek_thinking))) deepseek_done] @
        map Reply_text (deepseek_replies response)) w)"
  using assms(2,3)
  by (simp add: deepseek_command_def try_except_def bind_io_def lift_io_def
      safe_reply_delivered [OF reliable_delivers_replies [OF assms(1)]]
      safe_edit_reliable [OF assms(1)]
      deepseek_finalize_world [OF reliable_delivers_replies [OF assms(1)]])

lemma deepseek_success_replies:
  assumes "reliable tr" "args \<noteq> []" "q (py_join [32] args) = Inr response"
  shows "replies_sent (run (deepseek_command tr (Inr q) args)) =
           deepseek_thinking # deepseek_replies response"
proof -
  define h where "h = handle_of (tr (calls world0) (Reply_text deepseek_thinking))"
  define reqs where "reqs = [Reply_text deepseek_thinking, Edit_text h deepseek_processing,
    Edit_text h deepseek_done] @ map Reply_text (deepseek_replies response)"
  have "deepseek_command tr (Inr q) args world0 = (Inr (), fold (deliver tr) reqs world0)"
    unfolding reqs_def h_def using assms by (rule deepseek_success_world)
  then have "run (deepseek_command tr (Inr q) args) = trace (fold (deliver tr) reqs world0)"
    by (simp add: run_def)
  moreover have "replies_sent (trace world0) = []"
    by (simp add: world0_def replies_sent_def)
  moreover have "concat (map reply_text_of reqs) = deepseek_thinking # deepseek_replies response"
    by (simp add: reqs_def reply_texts_map_Reply)
  ultimately show ?thesis
    by (simp add: replies_fold_deliver [OF reliable_delivers_replies [OF assms(1)]])
qed

lemma claude_finalize_world:
  assumes "delivers_replies tr"
  shows "claude_finalize tr output w =
     (Inr (), fold (deliver tr) (map Reply_text (claude_replies output)) w)"
proof (cases "length output > 3800")
  case True
  define n where "n = length (chunks_of 3800 output)"
  have "for_io (py_enumerate (chunks_of 3800 output)) (\<lambda>(i, chunk).
             bind_io (safe_reply tr
                 (output_part_prefix @ str_nat (i + 1) @ [47] @ str_nat n @
                  part_suffix @ chunk) 3)
               (\<lambda>_. return_io ())) w
     = (Inr (), fold (\<lambda>(i, chunk). deliver tr (Reply_text (output_label n i @ chunk)))
          (py_enumerate (chunks_of 3800 output)) w)"
    by (rule for_io_fold) (simp add: split_def reply_unit_delivered [OF assms] output_label_def)
  then show ?thesis using True
    by (simp add: claude_finalize_def claude_replies_def labelled_def fold_map comp_def split_def
        n_def Let_def)
next
  case False
  then show ?thesis
    by (simp add: claude_finalize_def claude_replies_def reply_unit_delivered [OF assms])
qed

lemma claude_on_update_world:
  assumes "reliable tr"
  shows "claude_on_update tr h u w = (Inr (), fold (deliver tr) (claude_requests h u) w)"
proof (cases u)
  case (Result_update result)
  then show ?thesis
    by (simp add: claude_on_update_def claude_failure_def claude_failure_text_def Let_def
        bind_io_def return_io_def safe_edit_reliable [OF assms]
        safe_reply_delivered [OF reliable_delivers_replies [OF assms]]
        claude_finalize_world [OF reliable_delivers_replies [OF assms]])
qed (simp_all add: claude_on_update_def edit_unit_reliable [OF assms] return_io_def)

lemma claude_updates_world:
  assumes "reliable tr"
  shows "for_io updates (claude_on_update tr h) w =
           (Inr (), fold (deliver tr) (concat (map (claude_requests h) updates)) w)"
proof -
  have "for_io updates (claude_on_update tr h) w =
          (Inr (), fold (\<lambda>u. fold (deliver tr) (claude_requests h u)) updates w)"
    by (rule for_io_fold) (rule claude_on_update_world [OF assms])
  also have "fold (\<lambda>u. fold (deliver tr) (claude_requests h u)) updates w =
      fold (deliver tr) (concat (map (claude_requests h) updates)) w"
    by (induction updates arbitrary: w) simp_all
  finally show ?thesis .
qed

lemma claude_success_world:
  assumes "reliable tr" "args \<noteq> []" "gen (py_join [32] args) = (updates, None)"
  shows "claude_command tr (Inr gen) args w =
    (Inr (), fold (deliver tr)
       (Reply_text claude_starting #
        concat (map (claude_requests (handle_of (tr (calls w) (Reply_text claude_starting))))
          updates)) w)"
  using assms(2,3)
  by (simp add: claude_command_def try_except_def bind_io_def
      safe_reply_delivered [OF reliable_delivers_replies [OF assms(1)]]
      lift_io_def return_io_def claude_updates_world [OF assms(1)])

lemma no_result_no_reply:
  "\<not> is_result u \<Longrightarrow> concat (map reply_text_of (claude_requests h u)) = []"
  by (cases u) simp_all

lemma progress_no_replies:
  "list_all (\<lambda>u. \<not> is_result u) pre \<Longrightarrow>
   concat (map reply_text_of (concat (map (claude_requests h) pre))) = []"
  by (induction pre) (simp_all add: no_result_no_reply)

lemma claude_success_replies:
  assumes "reliable tr" "args \<noteq> []"
    and "gen (py_join [32] args) = (pre @ [Result_update result], None)"
    and "list_all (\<lambda>u. \<not> is_result u) pre" "success result"
  shows "replies_sent (run (claude_command tr (Inr gen) args)) =
           claude_starting # claude_replies (claude_output result)"
proof -
  define h where "h = handle_of (tr (calls world0) (Reply_text claude_starting))"
  define reqs where "reqs = Reply_text claude_starting #
    concat (map (claude_requests h) (pre @ [Result_update result]))"
  have "claude_command tr (Inr gen) args world0 = (Inr (), fold (deliver tr) reqs world0)"
    unfolding reqs_def h_def using assms(1,2,3) by (rule claude_success_world)
  then have "run (claude_command tr (Inr gen) args) = trace (fold (deliver tr) reqs world0)"
    by (simp add: run_def)
  moreover have "replies_sent (trace world0) = []"
    by (simp add: world0_def replies_sent_def)
  moreover have "concat (map reply_text_of reqs) =
      claude_starting # claude_replies (claude_output result)"
    using assms(5) progress_no_replies [OF assms(4), of h]
    by (simp add: reqs_def reply_texts_map_Reply)
  ultimately show ?thesis
    by (simp add: replies_fold_deliver [OF reliable_delivers_replies [OF assms(1)]])
qed

lemma fetch_success_world:
  assumes "reliable tr" "fetch_url_content url = Inr content"
  shows "fetch_command tr (Inr fetch_url_content) (url # rest) w =
    (Inr (), fold (deliver tr)
       [Reply_text (fetching_prefix @ url @ please_wait),
        Reply_text (content_prefix @
          (if length content > 4000 then take 4000 content @ truncated_marker else content))] w)"
  using assms(2)
  by (simp add: fetch_command_def bind_io_def try_except_def lift_io_def return_io_def Let_def
      transport_call_reliable [OF assms(1)])

lemma fetch_success_replies:
  assumes "reliable tr" "fetch_url_content url = Inr content"
  shows "replies_sent (run (fetch_command tr (Inr fetch_url_content) (url # rest))) =
    [fetching_prefix @ url @ please_wait,
     content_prefix @
       (if length content > 4000 then take 4000 content @ truncated_marker else content)]"
proof -
  define reqs where "reqs = [Reply_text (fetching_prefix @ url @ please_wait),
        Reply_text (content_prefix @
          (if length content > 4000 then take 4000 content @ truncated_marker else content))]"
  have "fetch_command tr (Inr fetch_url_content) (url # rest) world0 =
      (Inr (), fold (deliver tr) reqs world0)"
    unfolding reqs_def using assms by (rule fetch_success_world)
  then have "run (fetch_command tr (Inr fetch_url_content) (url # rest)) =
      trace (fold (deliver tr) reqs world0)"
    by (simp add: run_def)
  moreover have "replies_sent (trace world0) = []"
    by (simp add: world0_def replies_sent_def)
  moreover have "concat (map reply_text_of reqs) =
      [fetching_prefix @ url @ please_wait,
       content_prefix @
         (if length content > 4000 then take 4000 content @ truncated_marker else content)]"
    by (simp add: reqs_def)
  ultimately show ?thesis
    by (simp add: replies_fold_deliver [OF reliable_delivers_replies [OF assms(1)]])
qed

lemma safe_reply_attempts:
  "set (attempts (trace (snd (safe_reply tr t 3 w)))) \<subseteq> set (attempts (trace w)) \<union> {Reply_text t}"
  by (auto simp: safe_reply_def upt_3 transport_call_def sleep_def Let_def attempts_def
      split: outcome.splits)

lemma safe_reply_returned:
  "fst (safe_reply tr t 3 w) = Inr r \<Longrightarrow>
   replies_sent (trace (snd (safe_reply tr t 3 w))) = replies_sent (trace w) @ [t]"
  by (auto simp: safe_reply_def upt_3 transport_call_def sleep_def Let_def replies_sent_def
      split: outcome.splits if_splits)

lemma reply_unit_fst:
  "fst (bind_io (safe_reply tr t 3) (\<lambda>_. return_io ()) w) = Inr () \<longleftrightarrow>
   (\<exists>r. fst (safe_reply tr t 3 w) = Inr r)"
  by (cases "safe_reply tr t 3 w"; cases "fst (safe_reply tr t 3 w)")
     (auto simp: bind_io_def return_io_def)

lemma reply_unit_snd:
  "snd (bind_io (safe_reply tr t 3) (\<lambda>_. return_io ()) w) = snd (safe_reply tr t 3 w)"
  by (cases "safe_reply tr t 3 w"; cases "fst (safe_reply tr t 3 w)")
     (auto simp: bind_io_def return_io_def)

section \<open>Edits that fail\<close>

lemma safe_edit_exhausted:
  assumes "edits_fail_transiently tr"
  shows "safe_edit tr h t 3 w = (Inr None, exhaust tr (Edit_text h t) w)"
proof -
  obtain e0 where e0: "tr (calls w) (Edit_text h t) = Raises e0" "transient e0"
    using assms unfolding edits_fail_transiently_def by blast
  obtain e1 where e1: "tr (calls w + 1) (Edit_text h t) = Raises e1" "transient e1"
    using assms unfolding edits_fail_transiently_def by blast
  obtain e2 where e2: "tr (calls w + 2) (Edit_text h t) = Raises e2" "transient e2"
    using assms unfolding edits_fail_transiently_def by blast
  show ?thesis
    using e0 e1 e2
    by (simp add: safe_edit_def upt_3 transport_call_def sleep_def Let_def exhaust_def)
qed

lemma replies_exhaust_edit:
  "replies_sent (trace (exhaust tr (Edit_text h t) w)) = replies_sent (trace w)"
  by (cases "tr (calls w) (Edit_text h t)"; cases "tr (calls w + 1) (Edit_text h t)";
      cases "tr (calls w + 2) (Edit_text h t)")
     (simp_all add: exhaust_def replies_sent_def)

lemma attempts_exhaust:
  "attempts (trace (exhaust tr req w)) = attempts (trace w) @ [req, req, req]"
  by (simp add: exhaust_def attempts_def)

lemma waits_exhaust:
  "waits (trace (exhaust tr req w)) = waits (trace w) @ [1, 2]"
  by (simp add: exhaust_def waits_def)

lemma deepseek_continues_world:
  assumes "delivers_replies tr" "edits_fail_transiently tr" "args \<noteq> []"
    and "q (py_join [32] args) = Inr response"
  shows "deepseek_command tr (Inr q) args w =
    (Inr (), fold (deliver tr) (map Reply_text (deepseek_replies response))
       (exhaust tr (Edit_text (handle_of (tr (calls w) (Reply_text deepseek_thinking))) deepseek_done)
         (exhaust tr
            (Edit_text (handle_of (tr (calls w) (Reply_text deepseek_thinking)))
               deepseek_processing)
            (deliver tr (Reply_text deepseek_thinking) w))))"
  using assms(3,4)
  by (simp add: deepseek_command_def safe_reply_delivered [OF assms(1)] try_except_def bind_io_def
      lift_io_def safe_edit_exhausted [OF assms(2)] deepseek_finalize_world [OF assms(1)])

lemma deepseek_continues:
  assumes "delivers_replies tr" "edits_fail_transiently tr" "args \<noteq> []"
    and "q (py_join [32] args) = Inr response"
  shows "fst (deepseek_command tr (Inr q) args world0) = Inr () \<and>
         replies_sent (run (deepseek_command tr (Inr q) args)) =
           deepseek_thinking # deepseek_replies response"
proof -
  have "replies_sent (trace world0) = []"
    by (simp add: world0_def replies_sent_def)
  then show ?thesis
    using deepseek_continues_world [where tr = tr and args = args and q = q and w = world0
      and response = response] assms
    by (simp add: run_def replies_fold_deliver replies_exhaust_edit replies_deliver
        reply_texts_map_Reply)
qed

section \<open>Result extraction\<close>

lemma collect_parts_ok:
  "list_all text_block_ok blocks \<Longrightarrow>
   collect_parts repr blocks acc = Inr (acc @ map PyStr (concat (map (block_parts repr) blocks)))"
proof (induction blocks arbitrary: acc)
  case Nil
  then show ?case by simp
next
  case (Cons b blocks)
  then obtain d where b: "b = PyDict d" by (cases b) simp_all
  from Cons.prems have rest: "list_all text_block_ok blocks" by simp
  note IH = Cons.IH [OF rest]
  show ?case
  proof (cases "map_of d (ascii ''type'') = Some (PyStr (ascii ''text''))")
    case True
    with Cons.prems b show ?thesis
      by (auto simp: IH split: option.splits pyval.splits)
  next
    case False
    then show ?thesis
      using b by (auto simp: IH Let_def split: option.splits)
  qed
qed

lemma str_items_strings: "str_items i (map PyStr ss) = Inr ss"
  by (induction ss arbitrary: i) simp_all

section \<open>Tool dispatch\<close>

lemma tool_names_differ: "ascii ''get_telegram_updates'' \<noteq> ascii ''send_telegram_message''"
  by (simp add: ascii_def)

lemma send_message_items:
  "fst (send_message api env arguments) = Inr items \<Longrightarrow> \<exists>t. items = text_item t"
  by (auto simp: send_message_def split: sum.splits if_splits prod.splits)

lemma get_updates_items:
  "fst (get_updates api env arguments) = Inr items \<Longrightarrow> \<exists>t. items = text_item t"
  by (auto simp: get_updates_def split: sum.splits if_splits prod.splits)

lemma call_tool_item: "\<exists>t. fst (call_tool api env name arguments) = Inr (text_item t)"
proof (cases "name = ascii ''send_telegram_message''")
  case True
  show ?thesis
  proof (cases "fst (send_message api env arguments)")
    case (Inl e)
    then show ?thesis using True
      by (cases "send_message api env arguments") (auto simp: call_tool_def)
  next
    case (Inr items)
    then obtain t where "items = text_item t" using send_message_items by blast
    with Inr True show ?thesis
      by (cases "send_message api env arguments") (auto simp: call_tool_def)
  qed
next
  case False
  show ?thesis
  proof (cases "name = ascii ''get_telegram_updates'' \<and> get_updates_bound env")
    case True
    show ?thesis
    proof (cases "fst (get_updates api env arguments)")
      case (Inl e)
      then show ?thesis using True False
        by (cases "get_updates api env arguments") (auto simp: call_tool_def)
    next
      case (Inr items)
      then obtain t where "items = text_item t" using get_updates_items by blast
      with Inr True False show ?thesis
        by (cases "get_updates api env arguments") (auto simp: call_tool_def)
    qed
  next
    case no: False
    then show ?thesis using False by (auto simp: call_tool_def)
  qed
qed

section \<open>The claims\<close>

text \<open>
  C1. The claim fails for the text output of \<open>fetch_command\<close> (threshold 4000): with a
  content of 8001 characters the claim asks for 3 replies whose bodies concatenate to
  the content, and the handler delivers, after its "please wait" reply, one content reply
  whose body is the first 4000 characters and the truncation marker.
\<close>

theorem fetch_reply_count_counterexample:
  "replies_sent (run (fetch_command (\<lambda>n req. Delivered n)
      (Inr (\<lambda>url. Inr (replicate 8001 97))) [[117]])) =
     [fetching_prefix @ [117] @ please_wait,
      content_prefix @ replicate 4000 97 @ truncated_marker] \<and>
   \<lceil>real (length (replicate 8001 (97 :: nat))) / 4000\<rceil> = 3 \<and>
   drop (length content_prefix) (content_prefix @ replicate 4000 97 @ truncated_marker) \<noteq>
     replicate 8001 97"
proof (intro conjI)
  show "replies_sent (run (fetch_command (\<lambda>n req. Delivered n)
      (Inr (\<lambda>url. Inr (replicate 8001 97))) [[117]])) =
     [fetching_prefix @ [117] @ please_wait,
      content_prefix @ replicate 4000 97 @ truncated_marker]"
    using fetch_success_replies [OF reliable_always, where url = "[117]" and rest = "[]"
        and fetch_url_content = "\<lambda>url. Inr (replicate 8001 97)" and content = "replicate 8001 97"]
    by simp
  show "\<lceil>real (length (replicate 8001 (97 :: nat))) / 4000\<rceil> = 3"
    by simp
  have m: "length truncated_marker = 17"
    by (simp add: truncated_marker_def ascii_def)
  have "replicate 4000 97 @ truncated_marker \<noteq> replicate 8001 (97 :: nat)"
  proof
    assume "replicate 4000 97 @ truncated_marker = replicate 8001 (97 :: nat)"
    then have "length (replicate 4000 (97 :: nat) @ truncated_marker) =
        length (replicate 8001 (97 :: nat))"
      by (rule arg_cong)
    then show False by (simp add: m)
  qed
  then show "drop (length content_prefix) (content_prefix @ replicate 4000 97 @ truncated_marker) \<noteq>
     replicate 8001 97"
    by simp
qed

text \<open>
  C1 as amended. Over a transport that delivers every request, on the success path of
  \<open>deepseek_command\<close> (threshold 4000) and of \<open>claude_command\<close> (threshold 3800), after
  the status placeholder (the first delivered reply): an output no longer than the
  threshold is sent as exactly one reply holding the full text; a longer output is sent
  as \<open>ceil(len(output) / threshold)\<close> replies, reply \<open>k\<close> starting with the label of
  position \<open>k\<close>, and the replies with their labels cut off concatenate, in the order
  sent, to the output. In \<open>claude_command\<close> the output is the stripped standard output of
  the result event (or the fallback text), and the stream is some status and progress
  updates followed by one successful result. \<open>fetch_command\<close> sends, after its "please
  wait" reply, exactly one content reply: the full content when it is at most 4000
  characters long, and its first 4000 characters followed by the truncation marker
  otherwise.
\<close>

theorem replies_count_and_concat:
  assumes "reliable tr" and "args \<noteq> []"
  shows
    "(query (py_join [32] args) = Inr response \<and>
      sent = replies_sent (run (deepseek_command tr (Inr query) args)) \<longrightarrow>
        sent \<noteq> [] \<and> hd sent = deepseek_thinking \<and>
        (length response \<le> 4000 \<longrightarrow> tl sent = [answer_prefix @ response]) \<and>
        (length response > 4000 \<longrightarrow>
           int (length (tl sent)) = \<lceil>real (length response) / 4000\<rceil> \<and>
           carries_labels answer_label (tl sent) \<and>
           concat (strip_labels answer_label (tl sent)) = response)) \<and>
     (gen (py_join [32] args) = (pre @ [Result_update result], None) \<and>
      list_all (\<lambda>u. \<not> is_result u) pre \<and> success result \<and> out = claude_output result \<and>
      sent' = replies_sent (run (claude_command tr (Inr gen) args)) \<longrightarrow>
        sent' \<noteq> [] \<and> hd sent' = claude_starting \<and>
        (length out \<le> 3800 \<longrightarrow> tl sent' = [output_prefix @ out]) \<and>
        (length out > 3800 \<longrightarrow>
           int (length (tl sent')) = \<lceil>real (length out) / 3800\<rceil> \<and>
           carries_labels (output_label (length (tl sent'))) (tl sent') \<and>
           concat (strip_labels (output_label (length (tl sent'))) (tl sent')) = out)) \<and>
     (fetch_url_content (hd args) = Inr content \<and>
      sent'' = replies_sent (run (fetch_command tr (Inr fetch_url_content) args)) \<longrightarrow>
        sent'' \<noteq> [] \<and> hd sent'' = fetching_prefix @ hd args @ please_wait \<and>
        (length content \<le> 4000 \<longrightarrow> tl sent'' = [content_prefix @ content]) \<and>
        (length content > 4000 \<longrightarrow>
           tl sent'' = [content_prefix @ take 4000 content @ truncated_marker]))"
proof (intro conjI impI)
  assume a: "query (py_join [32] args) = Inr response \<and>
      sent = replies_sent (run (deepseek_command tr (Inr query) args))"
  then have q: "query (py_join [32] args) = Inr response" by simp
  have "replies_sent (run (deepseek_command tr (Inr query) args)) =
      deepseek_thinking # deepseek_replies response"
    using assms q by (rule deepseek_success_replies)
  with a have sent: "sent = deepseek_thinking # deepseek_replies response" by simp
  show "sent \<noteq> []" and "hd sent = deepseek_thinking" by (simp_all add: sent)
  show "tl sent = [answer_prefix @ response]" if "length response \<le> 4000"
    using that by (simp add: sent deepseek_replies_def)
  have long: "tl sent = labelled answer_label (chunks_of 4000 response)"
    if "length response > 4000"
    using that by (simp add: sent deepseek_replies_def)
  show "int (length (tl sent)) = \<lceil>real (length response) / 4000\<rceil>"
    if "length response > 4000"
    using length_chunks_ceiling [of 4000 response] by (simp add: long [OF that] length_labelled)
  show "carries_labels answer_label (tl sent)" if "length response > 4000"
    by (simp add: long [OF that] carries_labels_labelled)
  show "concat (strip_labels answer_label (tl sent)) = response" if "length response > 4000"
    by (simp add: long [OF that] strip_labels_labelled concat_chunks_of)
next
  assume a: "gen (py_join [32] args) = (pre @ [Result_update result], None) \<and>
      list_all (\<lambda>u. \<not> is_result u) pre \<and> success result \<and> out = claude_output result \<and>
      sent' = replies_sent (run (claude_command tr (Inr gen) args))"
  then have sent: "sent' = claude_starting # claude_replies out"
    using claude_success_replies [where tr = tr and args = args and gen = gen and pre = pre
        and result = result] assms by simp
  show "sent' \<noteq> []" and "hd sent' = claude_starting" by (simp_all add: sent)
  show "tl sent' = [output_prefix @ out]" if "length out \<le> 3800"
    using that by (simp add: sent claude_replies_def)
  have long: "tl sent' =
      labelled (output_label (length (chunks_of 3800 out))) (chunks_of 3800 out)"
    if "length out > 3800"
    using that by (simp add: sent claude_replies_def)
  have len: "length (tl sent') = length (chunks_of 3800 out)" if "length out > 3800"
    by (simp add: long [OF that] length_labelled)
  show "int (length (tl sent')) = \<lceil>real (length out) / 3800\<rceil>" if "length out > 3800"
    unfolding len [OF that] using length_chunks_ceiling [of 3800 out] by simp
  show "carries_labels (output_label (length (tl sent'))) (tl sent')" if "length out > 3800"
    unfolding len [OF that] by (simp add: long [OF that] carries_labels_labelled)
  show "concat (strip_labels (output_label (length (tl sent'))) (tl sent')) = out"
    if "length out > 3800"
    unfolding len [OF that] by (simp add: long [OF that] strip_labels_labelled concat_chunks_of)
next
  assume a: "fetch_url_content (hd args) = Inr content \<and>
      sent'' = replies_sent (run (fetch_command tr (Inr fetch_url_content) args))"
  obtain url rest where args: "args = url # rest" using assms(2) by (cases args) auto
  have sent: "sent'' = [fetching_prefix @ hd args @ please_wait,
           content_prefix @
             (if length content > 4000 then take 4000 content @ truncated_marker
              else content)]"
    using fetch_success_replies [where tr = tr and url = url and rest = rest
        and fetch_url_content = fetch_url_content and content = content] assms(1) a
    by (simp add: args)
  show "sent'' \<noteq> []" and "hd sent'' = fetching_prefix @ hd args @ please_wait"
    by (simp_all add: sent)
  show "tl sent'' = [content_prefix @ content]" if "length content \<le> 4000"
    using that by (simp add: sent)
  show "tl sent'' = [content_prefix @ take 4000 content @ truncated_marker]"
    if "length content > 4000"
    using that by (simp add: sent)
qed

theorem replies_count_and_concat_witness:
  "reliable (\<lambda>n req. Delivered n) \<and>
   replies_sent (run (deepseek_command (\<lambda>n req. Delivered n)
      (Inr (\<lambda>q. Inr (replicate 8001 97))) [[104, 105]])) =
     [deepseek_thinking, answer_label 0 @ replicate 4000 97, answer_label 1 @ replicate 4000 97,
      answer_label 2 @ [97]] \<and>
   int (length (tl (replies_sent (run (deepseek_command (\<lambda>n req. Delivered n)
      (Inr (\<lambda>q. Inr (replicate 8001 97))) [[104, 105]]))))) = 3 \<and>
   concat (strip_labels answer_label (tl (replies_sent (run (deepseek_command
      (\<lambda>n req. Delivered n) (Inr (\<lambda>q. Inr (replicate 8001 97))) [[104, 105]]))))) =
     replicate 8001 97 \<and>
   replies_sent (run (claude_command (\<lambda>n req. Delivered n)
      (Inr (\<lambda>op. ([Status_update [49]] @
         [Result_update \<lparr>stdout = replicate 3801 97, stderr = [], return_code = 0,
            success = True\<rparr>], None)))
      [[104, 105]])) =
     [claude_starting, output_label 2 0 @ replicate 3800 97, output_label 2 1 @ [97]] \<and>
   concat (strip_labels (output_label 2) (tl (replies_sent (run (claude_command
      (\<lambda>n req. Delivered n)
      (Inr (\<lambda>op. ([Status_update [49]] @
         [Result_update \<lparr>stdout = replicate 3801 97, stderr = [], return_code = 0,
            success = True\<rparr>], None)))
      [[104, 105]]))))) = replicate 3801 97 \<and>
   tl (replies_sent (run (fetch_command (\<lambda>n req. Delivered n)
      (Inr (\<lambda>url. Inr (replicate 8001 97))) [[104, 105]]))) =
     [content_prefix @ replicate 4000 97 @ truncated_marker]"
proof -
  define D :: transport where "D = (\<lambda>n req. Delivered n)"
  define q :: "pystr \<Rightarrow> exn + pystr" where "q = (\<lambda>q. Inr (replicate 8001 97))"
  define r :: exec_result where
    "r = \<lparr>stdout = replicate 3801 97, stderr = [], return_code = 0, success = True\<rparr>"
  define g :: "pystr \<Rightarrow> status_update list \<times> exn option" where
    "g = (\<lambda>op. ([Status_update [49]] @ [Result_update r], None))"
  have rel: "reliable D"
    unfolding D_def by (rule reliable_always)
  have co: "claude_output r = replicate 3801 97"
    by (simp add: r_def claude_output_def py_strip_replicate py_isspace_def)
  have two: "[0..<2] = [0, 1]"
    by (simp add: upt_rec)
  have d: "replies_sent (run (deepseek_command D (Inr q) [[104, 105]])) =
      [deepseek_thinking, answer_label 0 @ replicate 4000 97, answer_label 1 @ replicate 4000 97,
       answer_label 2 @ [97]]"
    using deepseek_success_replies [where tr = D and args = "[[104, 105]]" and q = q
        and response = "replicate 8001 97"] rel
    by (simp add: q_def deepseek_replies_def chunks_of_positions upt_3 labelled_def
        py_enumerate_def numeral_2_eq_2)
  have c: "replies_sent (run (claude_command D (Inr g) [[104, 105]])) =
      [claude_starting, output_label 2 0 @ replicate 3800 97, output_label 2 1 @ [97]]"
    using claude_success_replies [where tr = D and args = "[[104, 105]]" and gen = g
        and pre = "[Status_update [49]]" and result = r] rel
    by (simp add: g_def co claude_replies_def chunks_of_positions two labelled_def
        py_enumerate_def numeral_2_eq_2)
       (simp add: r_def numeral_2_eq_2)
  note t = replies_count_and_concat [OF rel, where args = "[[104, 105]]" and query = q
      and response = "replicate 8001 97" and gen = g and pre = "[Status_update [49]]"
      and result = r and out = "replicate 3801 97"
      and fetch_url_content = "\<lambda>url. Inr (replicate 8001 97)"
      and content = "replicate 8001 97"
      and sent = "replies_sent (run (deepseek_command D (Inr q) [[104, 105]]))"
      and sent' = "replies_sent (run (claude_command D (Inr g) [[104, 105]]))"
      and sent'' = "replies_sent (run (fetch_command D
        (Inr (\<lambda>url. Inr (replicate 8001 97))) [[104, 105]]))"]
  have t1: "int (length (tl (replies_sent (run (deepseek_command D (Inr q) [[104, 105]]))))) = 3"
    and t2: "concat (strip_labels answer_label
        (tl (replies_sent (run (deepseek_command D (Inr q) [[104, 105]]))))) = replicate 8001 97"
    using t by (simp_all add: q_def)
  have len: "length (tl (replies_sent (run (claude_command D (Inr g) [[104, 105]])))) = 2"
    by (simp add: c)
  have t3: "concat (strip_labels (output_label 2)
        (tl (replies_sent (run (claude_command D (Inr g) [[104, 105]]))))) = replicate 3801 97"
    using t co unfolding len by (simp add: g_def) (simp add: r_def)
  have t4: "tl (replies_sent (run (fetch_command D
        (Inr (\<lambda>url. Inr (replicate 8001 97))) [[104, 105]]))) =
      [content_prefix @ replicate 4000 97 @ truncated_marker]"
    using t by simp
  show ?thesis
    using rel d t1 t2 c t3 t4 unfolding D_def q_def g_def r_def by simp
qed

text \<open>
  C2. The claim holds for \<open>deepseek_command\<close> and \<open>claude_command\<close> and fails for
  \<open>fetch_command\<close>: with a content of 4001 characters the fetch handler delivers, after
  its "please wait" reply, one content reply that holds the first 4000 characters and the
  truncation marker, where chunking would give two bodies; the last character is in no
  reply.
\<close>

theorem fetch_truncates_counterexample:
  "replies_sent (run (fetch_command (\<lambda>n req. Delivered n) (Inr (\<lambda>url. Inr (replicate 4001 97)))
      [[117]])) =
     [fetching_prefix @ [117] @ please_wait,
      content_prefix @ replicate 4000 97 @ truncated_marker] \<and>
   chunks_of 4000 (replicate 4001 97) = [replicate 4000 97, [97]]"
proof
  show "replies_sent (run (fetch_command (\<lambda>n req. Delivered n)
      (Inr (\<lambda>url. Inr (replicate 4001 97))) [[117]])) =
     [fetching_prefix @ [117] @ please_wait,
      content_prefix @ replicate 4000 97 @ truncated_marker]"
    using fetch_success_replies [OF reliable_always, where url = "[117]" and rest = "[]"
        and fetch_url_content = "\<lambda>url. Inr (replicate 4001 97)" and content = "replicate 4001 97"]
    by simp
  show "chunks_of 4000 (replicate 4001 97) = [replicate 4000 97, [97]]"
    by (simp add: chunks_of_positions upt_rec)
qed

text \<open>
  C2 as amended. Over a transport that delivers every request, on the success path:
  \<open>deepseek_command\<close> (threshold 4000) and \<open>claude_command\<close> (threshold 3800) send an
  output longer than the threshold as one labelled reply per chunk, chunk \<open>k\<close> being the
  characters from position \<open>k * threshold\<close> on, at most \<open>threshold\<close> of them, in
  order, and send a shorter output as one reply; \<open>fetch_command\<close> sends one content
  reply, holding the content cut to its first 4000 characters and the truncation marker
  when it is longer than 4000, and the whole content otherwise.
\<close>

theorem chunks_or_truncation_per_handler:
  assumes "reliable tr" and "args \<noteq> []"
  shows
    "(query (py_join [32] args) = Inr response \<longrightarrow>
        replies_sent (run (deepseek_command tr (Inr query) args)) =
          deepseek_thinking #
            (if length response > 4000
             then labelled answer_label
                    (map (\<lambda>k. take 4000 (drop (k * 4000) response))
                       [0..<(length response + 3999) div 4000])
             else [answer_prefix @ response])) \<and>
     (gen (py_join [32] args) = (pre @ [Result_update result], None) \<and>
      list_all (\<lambda>u. \<not> is_result u) pre \<and> success result \<and> out = claude_output result \<longrightarrow>
        replies_sent (run (claude_command tr (Inr gen) args)) =
          claude_starting #
            (if length out > 3800
             then labelled (output_label ((length out + 3799) div 3800))
                    (map (\<lambda>k. take 3800 (drop (k * 3800) out))
                       [0..<(length out + 3799) div 3800])
             else [output_prefix @ out])) \<and>
     (fetch_url_content (hd args) = Inr content \<longrightarrow>
        replies_sent (run (fetch_command tr (Inr fetch_url_content) args)) =
          [fetching_prefix @ hd args @ please_wait,
           content_prefix @
             (if length content > 4000 then take 4000 content @ truncated_marker
              else content)])"
proof (intro conjI impI)
  assume q: "query (py_join [32] args) = Inr response"
  have "replies_sent (run (deepseek_command tr (Inr query) args)) =
      deepseek_thinking # deepseek_replies response"
    using assms q by (rule deepseek_success_replies)
  then show "replies_sent (run (deepseek_command tr (Inr query) args)) =
          deepseek_thinking #
            (if length response > 4000
             then labelled answer_label
                    (map (\<lambda>k. take 4000 (drop (k * 4000) response))
                       [0..<(length response + 3999) div 4000])
             else [answer_prefix @ response])"
    using chunks_of_positions [of 4000 response] by (simp add: deepseek_replies_def add.commute)
next
  assume g: "gen (py_join [32] args) = (pre @ [Result_update result], None) \<and>
      list_all (\<lambda>u. \<not> is_result u) pre \<and> success result \<and> out = claude_output result"
  then have "replies_sent (run (claude_command tr (Inr gen) args)) =
      claude_starting # claude_replies out"
    using claude_success_replies [where tr = tr and args = args and gen = gen and pre = pre
        and result = result] assms by simp
  then show "replies_sent (run (claude_command tr (Inr gen) args)) =
          claude_starting #
            (if length out > 3800
             then labelled (output_label ((length out + 3799) div 3800))
                    (map (\<lambda>k. take 3800 (drop (k * 3800) out))
                       [0..<(length out + 3799) div 3800])
             else [output_prefix @ out])"
    using chunks_of_positions [of 3800 out] length_chunks_of [of 3800 out]
    by (simp add: claude_replies_def add.commute)
next
  assume f: "fetch_url_content (hd args) = Inr content"
  obtain url rest where args: "args = url # rest" using assms(2) by (cases args) auto
  show "replies_sent (run (fetch_command tr (Inr fetch_url_content) args)) =
          [fetching_prefix @ hd args @ please_wait,
           content_prefix @
             (if length content > 4000 then take 4000 content @ truncated_marker
              else content)]"
    using fetch_success_replies [where tr = tr and url = url and rest = rest
        and fetch_url_content = fetch_url_content and content = content] assms(1) f
    by (simp add: args)
qed

theorem chunks_or_truncation_per_handler_witness:
  "reliable (\<lambda>n req. Delivered n) \<and>
   replies_sent (run (deepseek_command (\<lambda>n req. Delivered n)
      (Inr (\<lambda>q. Inr (replicate 4001 97))) [[104, 105]])) =
     [deepseek_thinking, answer_label 0 @ replicate 4000 97, answer_label 1 @ [97]] \<and>
   replies_sent (run (claude_command (\<lambda>n req. Delivered n)
      (Inr (\<lambda>op. ([Status_update [49]] @
         [Result_update \<lparr>stdout = replicate 3801 97, stderr = [], return_code = 0,
            success = True\<rparr>], None)))
      [[104, 105]])) =
     [claude_starting, output_label 2 0 @ replicate 3800 97, output_label 2 1 @ [97]] \<and>
   replies_sent (run (fetch_command (\<lambda>n req. Delivered n)
      (Inr (\<lambda>url. Inr (replicate 4001 97))) [[104, 105]])) =
     [fetching_prefix @ [104, 105] @ please_wait,
      content_prefix @ replicate 4000 97 @ truncated_marker]"
proof -
  have co: "claude_output \<lparr>stdout = replicate 3801 97, stderr = [], return_code = 0,
      success = True\<rparr> = replicate 3801 97"
    by (simp add: claude_output_def py_strip_replicate py_isspace_def)
  have two: "[0..<2] = [0, 1]"
    by (simp add: upt_rec)
  show ?thesis
    using chunks_or_truncation_per_handler [OF reliable_always,
        where args = "[[104, 105]]" and query = "\<lambda>q. Inr (replicate 4001 97)"
          and response = "replicate 4001 97"
          and gen = "\<lambda>op. ([Status_update [49]] @
            [Result_update \<lparr>stdout = replicate 3801 97, stderr = [], return_code = 0,
               success = True\<rparr>], None)"
          and pre = "[Status_update [49]]"
          and result = "\<lparr>stdout = replicate 3801 97, stderr = [], return_code = 0,
               success = True\<rparr>"
          and out = "replicate 3801 97"
          and fetch_url_content = "\<lambda>url. Inr (replicate 4001 97)"
          and content = "replicate 4001 97"]
    by (simp add: reliable_always co two labelled_def py_enumerate_def)
qed

text \<open>
  C3. The claim fails as stated: \<open>safe_edit\<close> catches \<open>NetworkError\<close> and \<open>TimedOut\<close>
  only. When the transport raises another error (here a \<open>TelegramError\<close> that is not a
  \<open>NetworkError\<close>, such as flood control), \<open>safe_edit\<close> raises it to its caller after one
  attempt.
\<close>

theorem safe_edit_raises_counterexample:
  "safe_edit (\<lambda>n req. Raises (Exn TelegramError (ascii ''Flood control exceeded''))) 7 [104, 105] 3
      world0 =
     (Inl (Exn TelegramError (ascii ''Flood control exceeded'')),
      \<lparr>calls = 1,
       trace = [Call (Edit_text 7 [104, 105])
                  (Raises (Exn TelegramError (ascii ''Flood control exceeded'')))]\<rparr>)"
  by (simp add: safe_edit_def upt_3 transport_call_def world0_def transient_def)

text \<open>
  C3 as amended. \<open>safe_edit\<close> never raises a transient network error to its caller:
  when every attempt fails with a transient error it makes exactly 3 attempts, waits 1
  and 2 after the first two, and returns \<open>None\<close>; an error outside the transient set is
  raised at the attempt where it occurs (the first, the second or the third), with no
  further attempt and no wait after it. The calling handler continues
  after the swallowed failure: on a transport where every edit fails transiently and
  replies are delivered, \<open>deepseek_command\<close> returns normally and delivers the
  placeholder and the answer.
\<close>

theorem safe_edit_swallows_transient_errors:
  "(edits_fail_transiently tr \<longrightarrow>
      fst (safe_edit tr h t 3 w) = Inr None \<and>
      attempts (trace (snd (safe_edit tr h t 3 w))) =
        attempts (trace w) @ [Edit_text h t, Edit_text h t, Edit_text h t] \<and>
      waits (trace (snd (safe_edit tr h t 3 w))) = waits (trace w) @ [1, 2]) \<and>
   (tr (calls w) (Edit_text h t) = Raises e1 \<and> transient e1 \<and>
    tr (calls w + 1) (Edit_text h t) = Raises e2 \<and> transient e2 \<and>
    tr (calls w + 2) (Edit_text h t) = Raises e3 \<and> transient e3 \<longrightarrow>
      safe_edit tr h t 3 w =
        (Inr None,
         \<lparr>calls = calls w + 3,
          trace = trace w @
            [Call (Edit_text h t) (Raises e1), Sleep 1, Call (Edit_text h t) (Raises e2), Sleep 2,
             Call (Edit_text h t) (Raises e3)]\<rparr>)) \<and>
   (fst (safe_edit tr h t 3 w) = Inl e \<longrightarrow> \<not> transient e) \<and>
   (tr (calls w) (Edit_text h t) = Raises e \<and> \<not> transient e \<longrightarrow>
      safe_edit tr h t 3 w =
        (Inl e, \<lparr>calls = calls w + 1,
                trace = trace w @ [Call (Edit_text h t) (Raises e)]\<rparr>)) \<and>
   (tr (calls w) (Edit_text h t) = Raises e1 \<and> transient e1 \<and>
    tr (calls w + 1) (Edit_text h t) = Raises e \<and> \<not> transient e \<longrightarrow>
      safe_edit tr h t 3 w =
        (Inl e,
         \<lparr>calls = calls w + 2,
          trace = trace w @
            [Call (Edit_text h t) (Raises e1), Sleep 1, Call (Edit_text h t) (Raises e)]\<rparr>)) \<and>
   (tr (calls w) (Edit_text h t) = Raises e1 \<and> transient e1 \<and>
    tr (calls w + 1) (Edit_text h t) = Raises e2 \<and> transient e2 \<and>
    tr (calls w + 2) (Edit_text h t) = Raises e \<and> \<not> transient e \<longrightarrow>
      safe_edit tr h t 3 w =
        (Inl e,
         \<lparr>calls = calls w + 3,
          trace = trace w @
            [Call (Edit_text h t) (Raises e1), Sleep 1, Call (Edit_text h t) (Raises e2), Sleep 2,
             Call (Edit_text h t) (Raises e)]\<rparr>)) \<and>
   (delivers_replies tr \<and> edits_fail_transiently tr \<and> args \<noteq> [] \<and>
    query (py_join [32] args) = Inr response \<longrightarrow>
      fst (deepseek_command tr (Inr query) args world0) = Inr () \<and>
      replies_sent (run (deepseek_command tr (Inr query) args)) =
        deepseek_thinking # deepseek_replies response)"
proof (intro conjI impI)
  assume f: "edits_fail_transiently tr"
  show "fst (safe_edit tr h t 3 w) = Inr None"
    by (simp add: safe_edit_exhausted [OF f])
  show "attempts (trace (snd (safe_edit tr h t 3 w))) =
      attempts (trace w) @ [Edit_text h t, Edit_text h t, Edit_text h t]"
    by (simp add: safe_edit_exhausted [OF f] attempts_exhaust)
  show "waits (trace (snd (safe_edit tr h t 3 w))) = waits (trace w) @ [1, 2]"
    by (simp add: safe_edit_exhausted [OF f] waits_exhaust)
next
  assume "tr (calls w) (Edit_text h t) = Raises e1 \<and> transient e1 \<and>
    tr (calls w + 1) (Edit_text h t) = Raises e2 \<and> transient e2 \<and>
    tr (calls w + 2) (Edit_text h t) = Raises e3 \<and> transient e3"
  then show "safe_edit tr h t 3 w =
        (Inr None,
         \<lparr>calls = calls w + 3,
          trace = trace w @
            [Call (Edit_text h t) (Raises e1), Sleep 1, Call (Edit_text h t) (Raises e2), Sleep 2,
             Call (Edit_text h t) (Raises e3)]\<rparr>)"
    by (simp add: safe_edit_def upt_3 transport_call_def sleep_def Let_def)
next
  assume "fst (safe_edit tr h t 3 w) = Inl e"
  then show "\<not> transient e"
    by (auto simp: safe_edit_def upt_3 transport_call_def sleep_def Let_def
        split: outcome.splits if_splits)
next
  assume "tr (calls w) (Edit_text h t) = Raises e \<and> \<not> transient e"
  then show "safe_edit tr h t 3 w =
      (Inl e, \<lparr>calls = calls w + 1, trace = trace w @ [Call (Edit_text h t) (Raises e)]\<rparr>)"
    by (simp add: safe_edit_def upt_3 transport_call_def)
next
  assume "tr (calls w) (Edit_text h t) = Raises e1 \<and> transient e1 \<and>
    tr (calls w + 1) (Edit_text h t) = Raises e \<and> \<not> transient e"
  then show "safe_edit tr h t 3 w =
        (Inl e,
         \<lparr>calls = calls w + 2,
          trace = trace w @
            [Call (Edit_text h t) (Raises e1), Sleep 1, Call (Edit_text h t) (Raises e)]\<rparr>)"
    by (simp add: safe_edit_def upt_3 transport_call_def sleep_def Let_def)
next
  assume "tr (calls w) (Edit_text h t) = Raises e1 \<and> transient e1 \<and>
    tr (calls w + 1) (Edit_text h t) = Raises e2 \<and> transient e2 \<and>
    tr (calls w + 2) (Edit_text h t) = Raises e \<and> \<not> transient e"
  then show "safe_edit tr h t 3 w =
        (Inl e,
         \<lparr>calls = calls w + 3,
          trace = trace w @
            [Call (Edit_text h t) (Raises e1), Sleep 1, Call (Edit_text h t) (Raises e2), Sleep 2,
             Call (Edit_text h t) (Raises e)]\<rparr>)"
    by (simp add: safe_edit_def upt_3 transport_call_def sleep_def Let_def)
next
  assume a: "delivers_replies tr \<and> edits_fail_transiently tr \<and> args \<noteq> [] \<and>
    query (py_join [32] args) = Inr response"
  then have "fst (deepseek_command tr (Inr query) args world0) = Inr () \<and>
      replies_sent (run (deepseek_command tr (Inr query) args)) =
        deepseek_thinking # deepseek_replies response"
    using deepseek_continues [where tr = tr and args = args and q = query
        and response = response] by simp
  then show "fst (deepseek_command tr (Inr query) args world0) = Inr ()"
    and "replies_sent (run (deepseek_command tr (Inr query) args)) =
        deepseek_thinking # deepseek_replies response"
    by simp_all
qed

theorem safe_edit_swallows_transient_errors_witness:
  "edits_fail_transiently
     (\<lambda>n req. case req of Reply_text t \<Rightarrow> Delivered n
        | Edit_text h t \<Rightarrow> Raises (Exn NetworkError [110])) \<and>
   delivers_replies
     (\<lambda>n req. case req of Reply_text t \<Rightarrow> Delivered n
        | Edit_text h t \<Rightarrow> Raises (Exn NetworkError [110])) \<and>
   safe_edit
     (\<lambda>n req. case req of Reply_text t \<Rightarrow> Delivered n
        | Edit_text h t \<Rightarrow> Raises (Exn NetworkError [110])) 7 [104, 105] 3 world0 =
     (Inr None,
      \<lparr>calls = 3,
       trace =
         [Call (Edit_text 7 [104, 105]) (Raises (Exn NetworkError [110])), Sleep 1,
          Call (Edit_text 7 [104, 105]) (Raises (Exn NetworkError [110])), Sleep 2,
          Call (Edit_text 7 [104, 105]) (Raises (Exn NetworkError [110]))]\<rparr>) \<and>
   attempts (trace (snd (safe_edit
     (\<lambda>n req. case req of Reply_text t \<Rightarrow> Delivered n
        | Edit_text h t \<Rightarrow> Raises (Exn NetworkError [110])) 7 [104, 105] 3 world0))) =
     [Edit_text 7 [104, 105], Edit_text 7 [104, 105], Edit_text 7 [104, 105]] \<and>
   waits (trace (snd (safe_edit
     (\<lambda>n req. case req of Reply_text t \<Rightarrow> Delivered n
        | Edit_text h t \<Rightarrow> Raises (Exn NetworkError [110])) 7 [104, 105] 3 world0))) = [1, 2] \<and>
   replies_sent (run (deepseek_command
     (\<lambda>n req. case req of Reply_text t \<Rightarrow> Delivered n
        | Edit_text h t \<Rightarrow> Raises (Exn NetworkError [110]))
     (Inr (\<lambda>q. Inr [111, 107])) [[104, 105]])) =
     [deepseek_thinking, answer_prefix @ [111, 107]] \<and>
   transient (Exn NetworkError [110]) \<and> \<not> transient (Exn TelegramError [102]) \<and>
   safe_edit (\<lambda>n req. Raises (Exn TelegramError [102])) 7 [104, 105] 3 world0 =
     (Inl (Exn TelegramError [102]),
      \<lparr>calls = 1,
       trace = [Call (Edit_text 7 [104, 105]) (Raises (Exn TelegramError [102]))]\<rparr>) \<and>
   safe_edit
     (\<lambda>n req. if n < 1 then Raises (Exn NetworkError [110]) else Raises (Exn TelegramError [102]))
     7 [104, 105] 3 world0 =
     (Inl (Exn TelegramError [102]),
      \<lparr>calls = 2,
       trace =
         [Call (Edit_text 7 [104, 105]) (Raises (Exn NetworkError [110])), Sleep 1,
          Call (Edit_text 7 [104, 105]) (Raises (Exn TelegramError [102]))]\<rparr>) \<and>
   safe_edit
     (\<lambda>n req. if n < 2 then Raises (Exn NetworkError [110]) else Raises (Exn TelegramError [102]))
     7 [104, 105] 3 world0 =
     (Inl (Exn TelegramError [102]),
      \<lparr>calls = 3,
       trace =
         [Call (Edit_text 7 [104, 105]) (Raises (Exn NetworkError [110])), Sleep 1,
          Call (Edit_text 7 [104, 105]) (Raises (Exn NetworkError [110])), Sleep 2,
          Call (Edit_text 7 [104, 105]) (Raises (Exn TelegramError [102]))]\<rparr>)"
proof -
  define tr1 :: transport where
    "tr1 = (\<lambda>n req. case req of Reply_text t \<Rightarrow> Delivered n
        | Edit_text h t \<Rightarrow> Raises (Exn NetworkError [110]))"
  define tr2 :: transport where
    "tr2 = (\<lambda>n req. if n < 1 then Raises (Exn NetworkError [110])
        else Raises (Exn TelegramError [102]))"
  define tr3 :: transport where
    "tr3 = (\<lambda>n req. if n < 2 then Raises (Exn NetworkError [110])
        else Raises (Exn TelegramError [102]))"
  define tr4 :: transport where
    "tr4 = (\<lambda>n req. Raises (Exn TelegramError [102]))"
  have f: "edits_fail_transiently tr1"
    by (simp add: edits_fail_transiently_def tr1_def transient_def)
  have d: "delivers_replies tr1"
    by (simp add: delivers_replies_def tr1_def)
  have p: "transient (Exn NetworkError [110])"
    by (simp add: transient_def)
  have n: "\<not> transient (Exn TelegramError [102])"
    by (simp add: transient_def)
  have w0: "attempts [] = []" "waits [] = []" "calls world0 = 0" "trace world0 = []"
    by (simp_all add: world0_def attempts_def waits_def)
  note sw = safe_edit_swallows_transient_errors
  have a1: "fst (safe_edit tr1 7 [104, 105] 3 world0) = Inr None \<and>
      attempts (trace (snd (safe_edit tr1 7 [104, 105] 3 world0))) =
        attempts (trace world0) @
          [Edit_text 7 [104, 105], Edit_text 7 [104, 105], Edit_text 7 [104, 105]] \<and>
      waits (trace (snd (safe_edit tr1 7 [104, 105] 3 world0))) =
        waits (trace world0) @ [1, 2]"
    by (rule sw [THEN conjunct1, THEN mp]) (rule f)
  have a2: "safe_edit tr1 7 [104, 105] 3 world0 =
        (Inr None,
         \<lparr>calls = calls world0 + 3,
          trace = trace world0 @
            [Call (Edit_text 7 [104, 105]) (Raises (Exn NetworkError [110])), Sleep 1,
             Call (Edit_text 7 [104, 105]) (Raises (Exn NetworkError [110])), Sleep 2,
             Call (Edit_text 7 [104, 105]) (Raises (Exn NetworkError [110]))]\<rparr>)"
    by (rule sw [THEN conjunct2, THEN conjunct1, THEN mp]) (simp add: tr1_def p)
  have a4: "safe_edit tr4 7 [104, 105] 3 world0 =
        (Inl (Exn TelegramError [102]),
         \<lparr>calls = calls world0 + 1,
          trace = trace world0 @
            [Call (Edit_text 7 [104, 105]) (Raises (Exn TelegramError [102]))]\<rparr>)"
    by (rule sw [THEN conjunct2, THEN conjunct2, THEN conjunct2, THEN conjunct1, THEN mp])
       (simp add: tr4_def n)
  have a5: "safe_edit tr2 7 [104, 105] 3 world0 =
        (Inl (Exn TelegramError [102]),
         \<lparr>calls = calls world0 + 2,
          trace = trace world0 @
            [Call (Edit_text 7 [104, 105]) (Raises (Exn NetworkError [110])), Sleep 1,
             Call (Edit_text 7 [104, 105]) (Raises (Exn TelegramError [102]))]\<rparr>)"
    by (rule sw [THEN conjunct2, THEN conjunct2, THEN conjunct2, THEN conjunct2, THEN conjunct1,
          THEN mp])
       (simp add: tr2_def n p w0)
  have a6: "safe_edit tr3 7 [104, 105] 3 world0 =
        (Inl (Exn TelegramError [102]),
         \<lparr>calls = calls world0 + 3,
          trace = trace world0 @
            [Call (Edit_text 7 [104, 105]) (Raises (Exn NetworkError [110])), Sleep 1,
             Call (Edit_text 7 [104, 105]) (Raises (Exn NetworkError [110])), Sleep 2,
             Call (Edit_text 7 [104, 105]) (Raises (Exn TelegramError [102]))]\<rparr>)"
    by (rule sw [THEN conjunct2, THEN conjunct2, THEN conjunct2, THEN conjunct2, THEN conjunct2,
          THEN conjunct1, THEN mp])
       (simp add: tr3_def n p w0)
  have a7: "fst (deepseek_command tr1 (Inr (\<lambda>q. Inr [111, 107])) [[104, 105]] world0) = Inr () \<and>
      replies_sent (run (deepseek_command tr1 (Inr (\<lambda>q. Inr [111, 107])) [[104, 105]])) =
        deepseek_thinking # deepseek_replies [111, 107]"
    by (rule sw [THEN conjunct2, THEN conjunct2, THEN conjunct2, THEN conjunct2, THEN conjunct2,
          THEN conjunct2, THEN mp])
       (simp add: f d)
  have r: "deepseek_replies [111, 107] = [answer_prefix @ [111, 107]]"
    by (simp add: deepseek_replies_def)
  have g1: "safe_edit tr1 7 [104, 105] 3 world0 =
     (Inr None,
      \<lparr>calls = 3,
       trace =
         [Call (Edit_text 7 [104, 105]) (Raises (Exn NetworkError [110])), Sleep 1,
          Call (Edit_text 7 [104, 105]) (Raises (Exn NetworkError [110])), Sleep 2,
          Call (Edit_text 7 [104, 105]) (Raises (Exn NetworkError [110]))]\<rparr>)"
    using a2 by (simp add: w0)
  have g2: "attempts (trace (snd (safe_edit tr1 7 [104, 105] 3 world0))) =
     [Edit_text 7 [104, 105], Edit_text 7 [104, 105], Edit_text 7 [104, 105]]"
    and g3: "waits (trace (snd (safe_edit tr1 7 [104, 105] 3 world0))) = [1, 2]"
    using a1 by (simp_all add: w0)
  have g4: "replies_sent (run (deepseek_command tr1 (Inr (\<lambda>q. Inr [111, 107])) [[104, 105]])) =
     [deepseek_thinking, answer_prefix @ [111, 107]]"
    using a7 by (simp add: r)
  have g5: "safe_edit tr4 7 [104, 105] 3 world0 =
     (Inl (Exn TelegramError [102]),
      \<lparr>calls = 1,
       trace = [Call (Edit_text 7 [104, 105]) (Raises (Exn TelegramError [102]))]\<rparr>)"
    using a4 by (simp add: w0)
  have g6: "safe_edit tr2 7 [104, 105] 3 world0 =
     (Inl (Exn TelegramError [102]),
      \<lparr>calls = 2,
       trace =
         [Call (Edit_text 7 [104, 105]) (Raises (Exn NetworkError [110])), Sleep 1,
          Call (Edit_text 7 [104, 105]) (Raises (Exn TelegramError [102]))]\<rparr>)"
    using a5 by (simp add: w0)
  have g7: "safe_edit tr3 7 [104, 105] 3 world0 =
     (Inl (Exn TelegramError [102]),
      \<lparr>calls = 3,
       trace =
         [Call (Edit_text 7 [104, 105]) (Raises (Exn NetworkError [110])), Sleep 1,
          Call (Edit_text 7 [104, 105]) (Raises (Exn NetworkError [110])), Sleep 2,
          Call (Edit_text 7 [104, 105]) (Raises (Exn TelegramError [102]))]\<rparr>)"
    using a6 by (simp add: w0)
  show ?thesis
    using f d g1 g2 g3 g4 p n g5 g6 g7 unfolding tr1_def tr2_def tr3_def tr4_def
    by (intro conjI)
qed

text \<open>
  C4. When the transport raises a transient error on attempts 1 and 2 of a send or an
  edit and accepts attempt 3, the primitive makes exactly these three calls with a wait
  of 1 after the first and of 2 after the second, and returns the message of the third
  call: the same value an immediately successful call returns.
\<close>

theorem two_transient_failures_then_success:
  assumes "transient e1" and "transient e2"
  shows
    "(tr (calls w) (Reply_text t) = Raises e1 \<and> tr (calls w + 1) (Reply_text t) = Raises e2 \<and>
      tr (calls w + 2) (Reply_text t) = Delivered m \<longrightarrow>
        safe_reply tr t 3 w =
          (Inr (Some m),
           \<lparr>calls = calls w + 3,
            trace = trace w @
              [Call (Reply_text t) (Raises e1), Sleep 1, Call (Reply_text t) (Raises e2), Sleep 2,
               Call (Reply_text t) (Delivered m)]\<rparr>)) \<and>
     (tr (calls w) (Edit_text h t) = Raises e1 \<and> tr (calls w + 1) (Edit_text h t) = Raises e2 \<and>
      tr (calls w + 2) (Edit_text h t) = Delivered m \<longrightarrow>
        safe_edit tr h t 3 w =
          (Inr (Some m),
           \<lparr>calls = calls w + 3,
            trace = trace w @
              [Call (Edit_text h t) (Raises e1), Sleep 1, Call (Edit_text h t) (Raises e2), Sleep 2,
               Call (Edit_text h t) (Delivered m)]\<rparr>)) \<and>
     (tr' (calls w) (Reply_text t) = Delivered m \<longrightarrow>
        fst (safe_reply tr' t 3 w) = Inr (Some m)) \<and>
     (tr' (calls w) (Edit_text h t) = Delivered m \<longrightarrow>
        fst (safe_edit tr' h t 3 w) = Inr (Some m))"
  using assms
  by (simp add: safe_reply_def safe_edit_def upt_3 transport_call_def sleep_def Let_def)

theorem two_transient_failures_then_success_witness:
  "transient (Exn NetworkError [110]) \<and> transient (Exn TimedOut [116]) \<and>
   safe_reply
     (\<lambda>n req. if n = 0 then Raises (Exn NetworkError [110])
               else if n = 1 then Raises (Exn TimedOut [116]) else Delivered 42)
     [104, 105] 3 world0 =
     (Inr (Some 42),
      \<lparr>calls = 3,
       trace =
         [Call (Reply_text [104, 105]) (Raises (Exn NetworkError [110])), Sleep 1,
          Call (Reply_text [104, 105]) (Raises (Exn TimedOut [116])), Sleep 2,
          Call (Reply_text [104, 105]) (Delivered 42)]\<rparr>) \<and>
   safe_edit
     (\<lambda>n req. if n = 0 then Raises (Exn NetworkError [110])
               else if n = 1 then Raises (Exn TimedOut [116]) else Delivered 42)
     7 [104, 105] 3 world0 =
     (Inr (Some 42),
      \<lparr>calls = 3,
       trace =
         [Call (Edit_text 7 [104, 105]) (Raises (Exn NetworkError [110])), Sleep 1,
          Call (Edit_text 7 [104, 105]) (Raises (Exn TimedOut [116])), Sleep 2,
          Call (Edit_text 7 [104, 105]) (Delivered 42)]\<rparr>) \<and>
   fst (safe_reply (\<lambda>n req. Delivered 42) [104, 105] 3 world0) = Inr (Some 42) \<and>
   fst (safe_edit (\<lambda>n req. Delivered 42) 7 [104, 105] 3 world0) = Inr (Some 42)"
proof -
  have t: "transient (Exn NetworkError [110])" "transient (Exn TimedOut [116])"
    by (simp_all add: transient_def)
  show ?thesis
    using two_transient_failures_then_success [OF t,
        where tr = "\<lambda>n req. if n = 0 then Raises (Exn NetworkError [110])
               else if n = 1 then Raises (Exn TimedOut [116]) else Delivered 42"
          and w = world0 and t = "[104, 105]" and m = 42 and h = 7
          and tr' = "\<lambda>n req. Delivered 42"] t
    by (simp add: world0_def)
qed

text \<open>
  C5. The claim fails for the success statuses other than 200: the adapter tests
  \<open>response.status != 200\<close>, so a 201 response raises the status error.
\<close>

theorem status_201_rejected_counterexample:
  "execute_claude_code (\<lambda>v. []) demo_config
     (\<lambda>req. Responds \<lparr>resp_status = 201, resp_text = Inr (ascii ''Created''),
        resp_json = Inr [(ascii ''content'',
          PyList [PyDict [(ascii ''type'', PyStr (ascii ''text'')),
                          (ascii ''text'', PyStr (ascii ''done''))]])]\<rparr>)
     (ascii ''ls'') None =
     Inl (Exn Exception (ascii ''API returned status 201: Created'')) \<and>
   (200 :: int) \<le> 201 \<and> (201 :: int) < 300"
  by (simp add: execute_claude_code_def demo_config_def Let_def str_int_def str_nat.simps ascii_def)

text \<open>
  C5 as amended. With the API key configured and a response received whose body text
  can be read: for every status other than 200, whether or not the body decodes as JSON,
  \<open>execute_claude_code\<close> fails with the error "API returned status \<open>status\<close>:
  \<open>body\<close>"; for status 200 with a JSON body that decodes it extracts the result text
  and returns the result record, so that, where a 200 response decodes, it fails with
  that error if and only if the status is not 200. A 200 response whose JSON decoding
  raises fails with the decoding error (wrapped as "Network error: " for a client
  error), not with a status error of the adapter.
\<close>

theorem status_error_iff_not_200:
  assumes "CLAUDE_API_KEY config = Some key" and "key \<noteq> []"
    and "resp_text response = Inr body"
  shows
    "(resp_status response \<noteq> 200 \<longrightarrow>
        execute_claude_code repr config (\<lambda>req. Responds response) operation timeout =
          Inl (Exn Exception
            (ascii ''API returned status '' @ str_int (resp_status response) @ ascii '': '' @
             body))) \<and>
     (resp_status response = 200 \<and> resp_json response = Inr data \<longrightarrow>
        execute_claude_code repr config (\<lambda>req. Responds response) operation timeout =
          Inr \<lparr>stdout = extract_result_from_response repr data, stderr = [], return_code = 0,
               success = True\<rparr>) \<and>
     (resp_status response = 200 \<and> resp_json response = Inl e \<longrightarrow>
        execute_claude_code repr config (\<lambda>req. Responds response) operation timeout =
          Inl (if exn_class e = ClientError
               then Exn Exception (ascii ''Network error: '' @ exn_str e) else e)) \<and>
     ((resp_status response = 200 \<longrightarrow> resp_json response = Inr data) \<longrightarrow>
        (execute_claude_code repr config (\<lambda>req. Responds response) operation timeout =
           Inl (Exn Exception
             (ascii ''API returned status '' @ str_int (resp_status response) @ ascii '': '' @
              body)))
          = (resp_status response \<noteq> 200))"
  using assms by (auto simp: execute_claude_code_def Let_def)

theorem status_error_iff_not_200_witness:
  "CLAUDE_API_KEY demo_config = Some (ascii ''k'') \<and> ascii ''k'' \<noteq> [] \<and>
   execute_claude_code (\<lambda>v. []) demo_config
     (\<lambda>req. Responds \<lparr>resp_status = 200, resp_text = Inr (ascii ''ok''),
        resp_json = Inr [(ascii ''content'',
          PyList [PyDict [(ascii ''type'', PyStr (ascii ''text'')),
                          (ascii ''text'', PyStr (ascii ''done''))]])]\<rparr>)
     (ascii ''ls'') None =
     Inr \<lparr>stdout = ascii ''done'', stderr = [], return_code = 0, success = True\<rparr> \<and>
   execute_claude_code (\<lambda>v. []) demo_config
     (\<lambda>req. Responds \<lparr>resp_status = 500, resp_text = Inr (ascii ''oops''),
        resp_json = Inl (Exn ValueError (ascii ''Expecting value''))\<rparr>)
     (ascii ''ls'') None =
     Inl (Exn Exception (ascii ''API returned status 500: oops'')) \<and>
   execute_claude_code (\<lambda>v. []) demo_config
     (\<lambda>req. Responds \<lparr>resp_status = 200, resp_text = Inr (ascii ''oops''),
        resp_json = Inl (Exn ValueError (ascii ''Expecting value''))\<rparr>)
     (ascii ''ls'') None =
     Inl (Exn ValueError (ascii ''Expecting value''))"
proof -
  have k: "CLAUDE_API_KEY demo_config = Some (ascii ''k'')" "ascii ''k'' \<noteq> []"
    by (simp_all add: demo_config_def ascii_def)
  have x: "extract_result_from_response (\<lambda>v. [])
      [(ascii ''content'', PyList [PyDict [(ascii ''type'', PyStr (ascii ''text'')),
          (ascii ''text'', PyStr (ascii ''done''))]])] = ascii ''done''"
    by (simp add: extract_result_from_response_def extract_body_def py_len_def py_iter_def
        ascii_def)
  have a: "execute_claude_code (\<lambda>v. []) demo_config
     (\<lambda>req. Responds \<lparr>resp_status = 200, resp_text = Inr (ascii ''ok''),
        resp_json = Inr [(ascii ''content'',
          PyList [PyDict [(ascii ''type'', PyStr (ascii ''text'')),
                          (ascii ''text'', PyStr (ascii ''done''))]])]\<rparr>)
     (ascii ''ls'') None =
     Inr \<lparr>stdout = ascii ''done'', stderr = [], return_code = 0, success = True\<rparr>"
    using status_error_iff_not_200 [OF k, where response = "\<lparr>resp_status = 200,
        resp_text = Inr (ascii ''ok''),
        resp_json = Inr [(ascii ''content'',
          PyList [PyDict [(ascii ''type'', PyStr (ascii ''text'')),
                          (ascii ''text'', PyStr (ascii ''done''))]])]\<rparr>"
        and body = "ascii ''ok''" and repr = "\<lambda>v. []" and operation = "ascii ''ls''"
        and timeout = None
        and data = "[(ascii ''content'',
          PyList [PyDict [(ascii ''type'', PyStr (ascii ''text'')),
                          (ascii ''text'', PyStr (ascii ''done''))]])]"]
    by (simp add: x)
  have b: "execute_claude_code (\<lambda>v. []) demo_config
     (\<lambda>req. Responds \<lparr>resp_status = 500, resp_text = Inr (ascii ''oops''),
        resp_json = Inl (Exn ValueError (ascii ''Expecting value''))\<rparr>)
     (ascii ''ls'') None =
     Inl (Exn Exception (ascii ''API returned status 500: oops''))"
    using status_error_iff_not_200 [OF k, where response = "\<lparr>resp_status = 500,
        resp_text = Inr (ascii ''oops''),
        resp_json = Inl (Exn ValueError (ascii ''Expecting value''))\<rparr>"
        and body = "ascii ''oops''" and repr = "\<lambda>v. []" and operation = "ascii ''ls''"
        and timeout = None]
    by (simp add: str_int_def str_nat.simps ascii_def)
  have c: "execute_claude_code (\<lambda>v. []) demo_config
     (\<lambda>req. Responds \<lparr>resp_status = 200, resp_text = Inr (ascii ''oops''),
        resp_json = Inl (Exn ValueError (ascii ''Expecting value''))\<rparr>)
     (ascii ''ls'') None =
     Inl (Exn ValueError (ascii ''Expecting value''))"
    using status_error_iff_not_200 [OF k, where response = "\<lparr>resp_status = 200,
        resp_text = Inr (ascii ''oops''),
        resp_json = Inl (Exn ValueError (ascii ''Expecting value''))\<rparr>"
        and body = "ascii ''oops''" and repr = "\<lambda>v. []" and operation = "ascii ''ls''"
        and timeout = None and e = "Exn ValueError (ascii ''Expecting value'')"]
    by simp
  show ?thesis using k a b c by simp
qed

text \<open>
  C6. The claim fails in two places. An empty content list has no text or tool-use
  block, and the result is "No response content", not "Operation completed". And a
  tool-use block whose payload is empty is skipped, not joined as an empty part: the
  blocks text "a", tool-use "", text "b" give "a", newline, "b".
\<close>

theorem empty_content_counterexample:
  "extract_result_from_response (\<lambda>v. []) [(ascii ''content'', PyList [])] =
     ascii ''No response content'' \<and>
   ascii ''No response content'' \<noteq> ascii ''Operation completed'' \<and>
   extract_result_from_response (\<lambda>v. [])
     [(ascii ''content'',
       PyList [PyDict [(ascii ''type'', PyStr (ascii ''text'')), (ascii ''text'', PyStr [97])],
               PyDict [(ascii ''type'', PyStr (ascii ''tool_use'')), (ascii ''content'', PyStr [])],
               PyDict [(ascii ''type'', PyStr (ascii ''text'')), (ascii ''text'', PyStr [98])]])] =
     [97, 10, 98]"
  by (simp add: extract_result_from_response_def extract_body_def py_len_def py_iter_def
      ascii_def)

text \<open>
  C6 as amended. For a response dict whose \<open>"content"\<close> is a non-empty list of
  well-formed blocks, the result is the newline-joined parts of the blocks in response
  order (the text of each text block, \<open>str\<close> of the truthy payload of each tool-use
  block), and the literal "Operation completed" when there is no part. When
  \<open>"content"\<close> is absent or an empty list the result is "No response content".
\<close>

theorem extract_result_characterisation:
  "(map_of data (ascii ''content'') = Some (PyList blocks) \<and> blocks \<noteq> [] \<and>
    list_all text_block_ok blocks \<longrightarrow>
      extract_result_from_response repr data =
        (if concat (map (block_parts repr) blocks) = [] then ascii ''Operation completed''
         else py_join [10] (concat (map (block_parts repr) blocks)))) \<and>
   (map_of data (ascii ''content'') = None \<or> map_of data (ascii ''content'') = Some (PyList []) \<longrightarrow>
      extract_result_from_response repr data = ascii ''No response content'')"
proof (intro conjI impI)
  assume a: "map_of data (ascii ''content'') = Some (PyList blocks) \<and> blocks \<noteq> [] \<and>
    list_all text_block_ok blocks"
  then have c: "collect_parts repr blocks [] =
      Inr (map PyStr (concat (map (block_parts repr) blocks)))"
    using collect_parts_ok [of blocks repr "[]"] by simp
  show "extract_result_from_response repr data =
        (if concat (map (block_parts repr) blocks) = [] then ascii ''Operation completed''
         else py_join [10] (concat (map (block_parts repr) blocks)))"
    using a
    by (simp add: extract_result_from_response_def extract_body_def py_len_def py_iter_def c
        str_items_strings)
next
  assume "map_of data (ascii ''content'') = None \<or>
    map_of data (ascii ''content'') = Some (PyList [])"
  then show "extract_result_from_response repr data = ascii ''No response content''"
    by (auto simp: extract_result_from_response_def extract_body_def py_len_def)
qed

theorem extract_result_characterisation_witness:
  "extract_result_from_response (\<lambda>v. [53])
     [(ascii ''content'',
       PyList [PyDict [(ascii ''type'', PyStr (ascii ''text'')), (ascii ''text'', PyStr [97])],
               PyDict [(ascii ''type'', PyStr (ascii ''tool_use'')),
                       (ascii ''content'', PyStr [98, 99])],
               PyDict [(ascii ''type'', PyStr (ascii ''tool_use'')), (ascii ''content'', PyInt 5)],
               PyDict [(ascii ''type'', PyStr (ascii ''image''))],
               PyDict [(ascii ''type'', PyStr (ascii ''text''))]])] =
     [97, 10, 98, 99, 10, 53, 10] \<and>
   extract_result_from_response (\<lambda>v. [53])
     [(ascii ''content'', PyList [PyDict [(ascii ''type'', PyStr (ascii ''tool_use''))]])] =
     ascii ''Operation completed'' \<and>
   extract_result_from_response (\<lambda>v. [53]) [(ascii ''id'', PyStr [120])] =
     ascii ''No response content''"
proof -
  have neq: "ascii ''type'' \<noteq> ascii ''text''" "ascii ''type'' \<noteq> ascii ''content''"
    "ascii ''text'' \<noteq> ascii ''tool_use''" "ascii ''id'' \<noteq> ascii ''content''"
    "ascii ''text'' \<noteq> ascii ''image''" "ascii ''tool_use'' \<noteq> ascii ''image''"
    by (simp_all add: ascii_def)
  note c = extract_result_characterisation [where repr = "\<lambda>v. [53]"]
  have a: "extract_result_from_response (\<lambda>v. [53])
     [(ascii ''content'',
       PyList [PyDict [(ascii ''type'', PyStr (ascii ''text'')), (ascii ''text'', PyStr [97])],
               PyDict [(ascii ''type'', PyStr (ascii ''tool_use'')),
                       (ascii ''content'', PyStr [98, 99])],
               PyDict [(ascii ''type'', PyStr (ascii ''tool_use'')), (ascii ''content'', PyInt 5)],
               PyDict [(ascii ''type'', PyStr (ascii ''image''))],
               PyDict [(ascii ''type'', PyStr (ascii ''text''))]])] =
     [97, 10, 98, 99, 10, 53, 10]"
    using c [where data = "[(ascii ''content'',
       PyList [PyDict [(ascii ''type'', PyStr (ascii ''text'')), (ascii ''text'', PyStr [97])],
               PyDict [(ascii ''type'', PyStr (ascii ''tool_use'')),
                       (ascii ''content'', PyStr [98, 99])],
               PyDict [(ascii ''type'', PyStr (ascii ''tool_use'')), (ascii ''content'', PyInt 5)],
               PyDict [(ascii ''type'', PyStr (ascii ''image''))],
               PyDict [(ascii ''type'', PyStr (ascii ''text''))]])]"
        and blocks = "[PyDict [(ascii ''type'', PyStr (ascii ''text'')), (ascii ''text'', PyStr [97])],
               PyDict [(ascii ''type'', PyStr (ascii ''tool_use'')),
                       (ascii ''content'', PyStr [98, 99])],
               PyDict [(ascii ''type'', PyStr (ascii ''tool_use'')), (ascii ''content'', PyInt 5)],
               PyDict [(ascii ''type'', PyStr (ascii ''image''))],
               PyDict [(ascii ''type'', PyStr (ascii ''text''))]]"]
    by (simp add: neq neq [symmetric] py_str_def)
  have b: "extract_result_from_response (\<lambda>v. [53])
     [(ascii ''content'', PyList [PyDict [(ascii ''type'', PyStr (ascii ''tool_use''))]])] =
     ascii ''Operation completed''"
    using c [where data = "[(ascii ''content'',
          PyList [PyDict [(ascii ''type'', PyStr (ascii ''tool_use''))]])]"
        and blocks = "[PyDict [(ascii ''type'', PyStr (ascii ''tool_use''))]]"]
    by (simp add: neq neq [symmetric])
  have d: "extract_result_from_response (\<lambda>v. [53]) [(ascii ''id'', PyStr [120])] =
     ascii ''No response content''"
    using c [where data = "[(ascii ''id'', PyStr [120])]" and blocks = "[]"]
    by (simp add: neq neq [symmetric])
  show ?thesis using a b d by simp
qed

text \<open>
  C7. Whenever \<open>execute_claude_code\<close> returns normally, the record it returns has
  \<open>success\<close> true, \<open>return_code\<close> 0 and an empty \<open>stderr\<close>.
\<close>

theorem adapter_reports_success:
  "execute_claude_code repr config post operation timeout = Inr result \<Longrightarrow>
   success result \<and> return_code result = 0 \<and> stderr result = []"
  by (auto simp: execute_claude_code_def Let_def
      split: option.splits if_splits http_outcome.splits sum.splits)

theorem adapter_reports_success_witness:
  "execute_claude_code (\<lambda>v. []) demo_config
     (\<lambda>req. Responds \<lparr>resp_status = 200, resp_text = Inr (ascii ''ok''),
        resp_json = Inr []\<rparr>)
     (ascii ''ls'') None =
     Inr \<lparr>stdout = ascii ''No response content'', stderr = [], return_code = 0,
          success = True\<rparr> \<and>
   success \<lparr>stdout = ascii ''No response content'', stderr = [], return_code = 0,
          success = True\<rparr> \<and>
   return_code \<lparr>stdout = ascii ''No response content'', stderr = [], return_code = 0,
          success = True\<rparr> = 0 \<and>
   stderr \<lparr>stdout = ascii ''No response content'', stderr = [], return_code = 0,
          success = True\<rparr> = []"
proof -
  have r: "execute_claude_code (\<lambda>v. []) demo_config
     (\<lambda>req. Responds \<lparr>resp_status = 200, resp_text = Inr (ascii ''ok''),
        resp_json = Inr []\<rparr>)
     (ascii ''ls'') None =
     Inr \<lparr>stdout = ascii ''No response content'', stderr = [], return_code = 0,
          success = True\<rparr>"
    by (simp add: execute_claude_code_def demo_config_def Let_def
        extract_result_from_response_def extract_body_def ascii_def)
  from adapter_reports_success [OF r] r show ?thesis by simp
qed

text \<open>
  C8. With an empty argument list each of the three handlers only ever attempts its
  usage reply (the fetch handler once, the other two through \<open>safe_reply\<close>): no status
  placeholder is sent and nothing is edited, whatever the transport does. Whenever the
  handler returns normally, exactly one reply was delivered, the usage text.
\<close>

theorem no_arguments_single_usage_reply:
  "(attempts (run (fetch_command tr fetcher [])) = [Reply_text fetch_usage] \<and>
    (fst (fetch_command tr fetcher [] world0) = Inr () \<longrightarrow>
       replies_sent (run (fetch_command tr fetcher [])) = [fetch_usage])) \<and>
   (set (attempts (run (deepseek_command tr backend []))) \<subseteq> {Reply_text deepseek_usage} \<and>
    (fst (deepseek_command tr backend [] world0) = Inr () \<longrightarrow>
       replies_sent (run (deepseek_command tr backend [])) = [deepseek_usage])) \<and>
   (set (attempts (run (claude_command tr stream []))) \<subseteq> {Reply_text claude_usage} \<and>
    (fst (claude_command tr stream [] world0) = Inr () \<longrightarrow>
       replies_sent (run (claude_command tr stream [])) = [claude_usage]))"
proof (intro conjI impI)
  show "attempts (run (fetch_command tr fetcher [])) = [Reply_text fetch_usage]"
    by (simp add: run_def fetch_command_def bind_io_def return_io_def transport_call_def
        world0_def attempts_def Let_def split: outcome.splits)
  show "replies_sent (run (fetch_command tr fetcher [])) = [fetch_usage]"
    if "fst (fetch_command tr fetcher [] world0) = Inr ()"
    using that
    by (simp add: run_def fetch_command_def bind_io_def return_io_def transport_call_def
        world0_def replies_sent_def Let_def split: outcome.splits)
  have w0: "attempts (trace world0) = []" "replies_sent (trace world0) = []"
    by (simp_all add: world0_def attempts_def replies_sent_def)
  show "set (attempts (run (deepseek_command tr backend []))) \<subseteq> {Reply_text deepseek_usage}"
    using safe_reply_attempts [of tr deepseek_usage world0]
    by (simp add: run_def deepseek_command_def reply_unit_snd w0)
  show "set (attempts (run (claude_command tr stream []))) \<subseteq> {Reply_text claude_usage}"
    using safe_reply_attempts [of tr claude_usage world0]
    by (simp add: run_def claude_command_def reply_unit_snd w0)
  show "replies_sent (run (deepseek_command tr backend [])) = [deepseek_usage]"
    if "fst (deepseek_command tr backend [] world0) = Inr ()"
  proof -
    from that obtain r where "fst (safe_reply tr deepseek_usage 3 world0) = Inr r"
      by (auto simp: deepseek_command_def reply_unit_fst)
    then show ?thesis
      using safe_reply_returned [of tr deepseek_usage world0 r]
      by (simp add: run_def deepseek_command_def reply_unit_snd w0)
  qed
  show "replies_sent (run (claude_command tr stream [])) = [claude_usage]"
    if "fst (claude_command tr stream [] world0) = Inr ()"
  proof -
    from that obtain r where "fst (safe_reply tr claude_usage 3 world0) = Inr r"
      by (auto simp: claude_command_def reply_unit_fst)
    then show ?thesis
      using safe_reply_returned [of tr claude_usage world0 r]
      by (simp add: run_def claude_command_def reply_unit_snd w0)
  qed
qed

theorem no_arguments_single_usage_reply_witness:
  "fst (fetch_command (\<lambda>n req. Delivered n) (Inl (Exn OtherError [])) [] world0) = Inr () \<and>
   replies_sent (run (fetch_command (\<lambda>n req. Delivered n) (Inl (Exn OtherError [])) [])) =
     [fetch_usage] \<and>
   fst (deepseek_command (\<lambda>n req. Delivered n) (Inl (Exn OtherError [])) [] world0) = Inr () \<and>
   replies_sent (run (deepseek_command (\<lambda>n req. Delivered n) (Inl (Exn OtherError [])) [])) =
     [deepseek_usage] \<and>
   fst (claude_command (\<lambda>n req. Delivered n) (Inl (Exn OtherError [])) [] world0) = Inr () \<and>
   replies_sent (run (claude_command (\<lambda>n req. Delivered n) (Inl (Exn OtherError [])) [])) =
     [claude_usage]"
proof -
  have a: "fst (fetch_command (\<lambda>n req. Delivered n) (Inl (Exn OtherError [])) [] world0) = Inr ()"
    by (simp add: fetch_command_def bind_io_def return_io_def
        transport_call_reliable [OF reliable_always])
  have b: "fst (deepseek_command (\<lambda>n req. Delivered n) (Inl (Exn OtherError [])) [] world0) =
      Inr ()"
    by (simp add: deepseek_command_def reply_unit_delivered [OF reliable_delivers_replies [OF reliable_always]])
  have c: "fst (claude_command (\<lambda>n req. Delivered n) (Inl (Exn OtherError [])) [] world0) =
      Inr ()"
    by (simp add: claude_command_def reply_unit_delivered [OF reliable_delivers_replies [OF reliable_always]])
  show ?thesis
    using no_arguments_single_usage_reply [of "\<lambda>n req. Delivered n" "Inl (Exn OtherError [])"
        "Inl (Exn OtherError [])" "Inl (Exn OtherError [])"] a b c
    by simp
qed

text \<open>
  C9. Every call of \<open>call_tool\<close> returns normally a list of exactly one item of type
  "text", for every tool name, argument value, client behaviour and environment. In
  particular: a \<open>send_telegram_message\<close> call whose arguments lack \<open>chat_id\<close> or \<open>text\<close>
  returns the "required" error text; a Telegram error of the client is returned as
  "Telegram error: " and its message; every other exception of the two tool functions
  (the NameError of an unbound \<open>get_updates\<close> included) and an unknown tool name are
  returned as "Error: " and the message.
\<close>

theorem call_tool_returns_one_text_item:
  "(\<exists>t. fst (call_tool api env name arguments) = Inr [TextContent (ascii ''text'') t]) \<and>
   (arguments = PyDict d \<and>
    (map_of d (ascii ''chat_id'') = None \<or> map_of d (ascii ''text'') = None) \<longrightarrow>
      fst (call_tool api env (ascii ''send_telegram_message'') arguments) =
        Inr [TextContent (ascii ''text'') (ascii ''Error: chat_id and text are required'')]) \<and>
   (fst (get_bot env) = Inr () \<and> py_get arguments (ascii ''chat_id'') = Inr chat \<and>
    py_get arguments (ascii ''text'') = Inr body \<and> truthy chat \<and> truthy body \<and>
    api_send api chat body = Inl e \<and> is_telegram_error e \<longrightarrow>
      fst (call_tool api env (ascii ''send_telegram_message'') arguments) =
        Inr [TextContent (ascii ''text'') (ascii ''Telegram error: '' @ exn_str e)]) \<and>
   (get_updates_bound env \<and> fst (get_bot env) = Inr () \<and>
    py_get_default arguments (ascii ''limit'') (PyInt 10) = Inr limit \<and>
    api_updates api limit = Inl e \<and> is_telegram_error e \<longrightarrow>
      fst (call_tool api env (ascii ''get_telegram_updates'') arguments) =
        Inr [TextContent (ascii ''text'') (ascii ''Telegram error: '' @ exn_str e)]) \<and>
   (fst (send_message api env arguments) = Inl e \<longrightarrow>
      fst (call_tool api env (ascii ''send_telegram_message'') arguments) =
        Inr [TextContent (ascii ''text'') (ascii ''Error: '' @ exn_str e)]) \<and>
   (get_updates_bound env \<and> fst (get_updates api env arguments) = Inl e \<longrightarrow>
      fst (call_tool api env (ascii ''get_telegram_updates'') arguments) =
        Inr [TextContent (ascii ''text'') (ascii ''Error: '' @ exn_str e)]) \<and>
   (\<not> get_updates_bound env \<longrightarrow>
      fst (call_tool api env (ascii ''get_telegram_updates'') arguments) =
        Inr [TextContent (ascii ''text'')
               (ascii ''Error: name '' @ [39] @ ascii ''get_updates'' @ [39] @
                ascii '' is not defined'')]) \<and>
   (name \<noteq> ascii ''send_telegram_message'' \<and> name \<noteq> ascii ''get_telegram_updates'' \<longrightarrow>
      fst (call_tool api env name arguments) =
        Inr [TextContent (ascii ''text'') (ascii ''Error: Unknown tool: '' @ name)])"
proof (intro conjI impI)
  show "\<exists>t. fst (call_tool api env name arguments) = Inr [TextContent (ascii ''text'') t]"
    using call_tool_item [of api env name arguments] by (simp add: text_item_def)
next
  assume "arguments = PyDict d \<and>
    (map_of d (ascii ''chat_id'') = None \<or> map_of d (ascii ''text'') = None)"
  then show "fst (call_tool api env (ascii ''send_telegram_message'') arguments) =
        Inr [TextContent (ascii ''text'') (ascii ''Error: chat_id and text are required'')]"
    by (auto simp: call_tool_def send_message_def py_get_def py_get_default_def text_item_def
        split: option.splits)
next
  assume "fst (get_bot env) = Inr () \<and> py_get arguments (ascii ''chat_id'') = Inr chat \<and>
    py_get arguments (ascii ''text'') = Inr body \<and> truthy chat \<and> truthy body \<and>
    api_send api chat body = Inl e \<and> is_telegram_error e"
  then show "fst (call_tool api env (ascii ''send_telegram_message'') arguments) =
        Inr [TextContent (ascii ''text'') (ascii ''Telegram error: '' @ exn_str e)]"
    by (cases "get_bot env") (auto simp: call_tool_def send_message_def text_item_def)
next
  assume "get_updates_bound env \<and> fst (get_bot env) = Inr () \<and>
    py_get_default arguments (ascii ''limit'') (PyInt 10) = Inr limit \<and>
    api_updates api limit = Inl e \<and> is_telegram_error e"
  then show "fst (call_tool api env (ascii ''get_telegram_updates'') arguments) =
        Inr [TextContent (ascii ''text'') (ascii ''Telegram error: '' @ exn_str e)]"
    by (cases "get_bot env")
       (auto simp: call_tool_def get_updates_def text_item_def tool_names_differ)
next
  assume "fst (send_message api env arguments) = Inl e"
  then show "fst (call_tool api env (ascii ''send_telegram_message'') arguments) =
        Inr [TextContent (ascii ''text'') (ascii ''Error: '' @ exn_str e)]"
    by (cases "send_message api env arguments") (auto simp: call_tool_def text_item_def)
next
  assume "get_updates_bound env \<and> fst (get_updates api env arguments) = Inl e"
  then show "fst (call_tool api env (ascii ''get_telegram_updates'') arguments) =
        Inr [TextContent (ascii ''text'') (ascii ''Error: '' @ exn_str e)]"
    by (cases "get_updates api env arguments")
       (auto simp: call_tool_def text_item_def tool_names_differ)
next
  assume "\<not> get_updates_bound env"
  then show "fst (call_tool api env (ascii ''get_telegram_updates'') arguments) =
        Inr [TextContent (ascii ''text'')
               (ascii ''Error: name '' @ [39] @ ascii ''get_updates'' @ [39] @
                ascii '' is not defined'')]"
    by (simp add: call_tool_def text_item_def tool_names_differ) (simp add: ascii_def)
next
  assume "name \<noteq> ascii ''send_telegram_message'' \<and> name \<noteq> ascii ''get_telegram_updates''"
  then show "fst (call_tool api env name arguments) =
        Inr [TextContent (ascii ''text'') (ascii ''Error: Unknown tool: '' @ name)]"
    by (simp add: call_tool_def text_item_def ascii_def)
qed

theorem call_tool_returns_one_text_item_witness:
  "fst (call_tool demo_telegram demo_env (ascii ''send_telegram_message'') (PyDict [])) =
     Inr [TextContent (ascii ''text'') (ascii ''Error: chat_id and text are required'')] \<and>
   fst (call_tool demo_telegram demo_env (ascii ''send_telegram_message'')
      (PyDict [(ascii ''chat_id'', PyStr (ascii ''@chat'')), (ascii ''text'', PyStr (ascii ''hi''))])) =
     Inr [TextContent (ascii ''text'') (ascii ''Telegram error: Chat not found'')] \<and>
   fst (call_tool demo_telegram demo_env (ascii ''get_telegram_updates'') (PyDict [])) =
     Inr [TextContent (ascii ''text'') (ascii ''Telegram error: Bad Gateway'')] \<and>
   fst (call_tool demo_telegram demo_env (ascii ''send_telegram_message'') PyNone) =
     Inr [TextContent (ascii ''text'') (ascii ''Error: '' @ exn_str (no_get_attribute PyNone))] \<and>
   fst (call_tool demo_telegram demo_env (ascii ''get_telegram_updates'') PyNone) =
     Inr [TextContent (ascii ''text'') (ascii ''Error: '' @ exn_str (no_get_attribute PyNone))] \<and>
   fst (call_tool demo_telegram (demo_env\<lparr>get_updates_bound := False\<rparr>)
      (ascii ''get_telegram_updates'') (PyDict [])) =
     Inr [TextContent (ascii ''text'')
            (ascii ''Error: name '' @ [39] @ ascii ''get_updates'' @ [39] @
             ascii '' is not defined'')] \<and>
   fst (call_tool demo_telegram demo_env (ascii ''delete_chat'') (PyDict [])) =
     Inr [TextContent (ascii ''text'') (ascii ''Error: Unknown tool: delete_chat'')]"
proof -
  note t = call_tool_returns_one_text_item [where api = demo_telegram]
  have bot: "fst (get_bot demo_env) = Inr ()" "get_updates_bound demo_env"
    by (simp_all add: get_bot_def demo_env_def)
  have keys: "ascii ''text'' \<noteq> ascii ''chat_id''"
    by (simp add: ascii_def)
  have a: "fst (call_tool demo_telegram demo_env (ascii ''send_telegram_message'') (PyDict [])) =
     Inr [TextContent (ascii ''text'') (ascii ''Error: chat_id and text are required'')]"
    using t [where env = demo_env and arguments = "PyDict []" and d = "[]"] by simp
  have b: "fst (call_tool demo_telegram demo_env (ascii ''send_telegram_message'')
      (PyDict [(ascii ''chat_id'', PyStr (ascii ''@chat'')), (ascii ''text'', PyStr (ascii ''hi''))])) =
     Inr [TextContent (ascii ''text'') (ascii ''Telegram error: Chat not found'')]"
    using t [where env = demo_env
        and arguments = "PyDict [(ascii ''chat_id'', PyStr (ascii ''@chat'')),
          (ascii ''text'', PyStr (ascii ''hi''))]"
        and chat = "PyStr (ascii ''@chat'')" and body = "PyStr (ascii ''hi'')"
        and e = "Exn TelegramError (ascii ''Chat not found'')"] bot keys
    by (simp add: py_get_def py_get_default_def demo_telegram_def is_telegram_error_def)
       (simp add: ascii_def)
  have c: "fst (call_tool demo_telegram demo_env (ascii ''get_telegram_updates'') (PyDict [])) =
     Inr [TextContent (ascii ''text'') (ascii ''Telegram error: Bad Gateway'')]"
    using t [where env = demo_env and arguments = "PyDict []" and limit = "PyInt 10"
        and e = "Exn NetworkError (ascii ''Bad Gateway'')"] bot
    by (simp add: py_get_default_def demo_telegram_def is_telegram_error_def)
       (simp add: ascii_def)
  have d: "fst (call_tool demo_telegram demo_env (ascii ''send_telegram_message'') PyNone) =
     Inr [TextContent (ascii ''text'') (ascii ''Error: '' @ exn_str (no_get_attribute PyNone))]"
    using t [where env = demo_env and arguments = PyNone and e = "no_get_attribute PyNone"]
    by (simp add: send_message_def py_get_def py_get_default_def)
  have e: "fst (call_tool demo_telegram demo_env (ascii ''get_telegram_updates'') PyNone) =
     Inr [TextContent (ascii ''text'') (ascii ''Error: '' @ exn_str (no_get_attribute PyNone))]"
    using t [where env = demo_env and arguments = PyNone and e = "no_get_attribute PyNone"] bot
    by (simp add: get_updates_def py_get_default_def)
  have f: "fst (call_tool demo_telegram (demo_env\<lparr>get_updates_bound := False\<rparr>)
      (ascii ''get_telegram_updates'') (PyDict [])) =
     Inr [TextContent (ascii ''text'')
            (ascii ''Error: name '' @ [39] @ ascii ''get_updates'' @ [39] @
             ascii '' is not defined'')]"
    using t [where env = "demo_env\<lparr>get_updates_bound := False\<rparr>" and arguments = "PyDict []"]
    by simp
  have g: "fst (call_tool demo_telegram demo_env (ascii ''delete_chat'') (PyDict [])) =
     Inr [TextContent (ascii ''text'') (ascii ''Error: Unknown tool: delete_chat'')]"
    using t [where env = demo_env and arguments = "PyDict []" and name = "ascii ''delete_chat''"]
    by (simp add: ascii_def)
  show ?thesis using a b c d e f g by simp
qed

text \<open>
  C10. On the success path of \<open>claude_command\<close>, over a transport that delivers every
  request: when the standard output of the result is empty after \<open>strip()\<close>, the handler
  delivers, after its status placeholder, exactly one reply: the output label followed by
  the fixed fallback text.
\<close>

theorem empty_output_fallback_reply:
  assumes "reliable tr" and "args \<noteq> []"
    and "gen (py_join [32] args) = (pre @ [Result_update result], None)"
    and "list_all (\<lambda>u. \<not> is_result u) pre" and "success result"
    and "py_strip (stdout result) = []"
  shows "replies_sent (run (claude_command tr (Inr gen) args)) =
           [claude_starting, output_prefix @ no_output_text]"
proof -
  have "claude_output result = no_output_text"
    using assms(6) by (simp add: claude_output_def)
  moreover have "length no_output_text = 11"
    by (simp add: no_output_text_def)
  moreover have "replies_sent (run (claude_command tr (Inr gen) args)) =
      claude_starting # claude_replies (claude_output result)"
    using assms(1-5) by (rule claude_success_replies)
  ultimately show ?thesis by (simp add: claude_replies_def)
qed

theorem empty_output_fallback_reply_witness:
  "reliable (\<lambda>n req. Delivered n) \<and>
   py_strip (stdout \<lparr>stdout = [32, 10, 9], stderr = [], return_code = 0, success = True\<rparr>) = [] \<and>
   replies_sent (run (claude_command (\<lambda>n req. Delivered n)
      (Inr (\<lambda>op. ([Status_update [49], Progress_update [50]] @
         [Result_update \<lparr>stdout = [32, 10, 9], stderr = [], return_code = 0, success = True\<rparr>],
         None)))
      [[108, 115]])) =
     [claude_starting, output_prefix @ no_output_text]"
proof -
  have s: "py_strip (stdout \<lparr>stdout = [32, 10, 9], stderr = [], return_code = 0,
      success = True\<rparr>) = []"
    by (simp add: py_strip_def py_isspace_def)
  show ?thesis
    using empty_output_fallback_reply [OF reliable_always,
        where args = "[[108, 115]]"
          and gen = "\<lambda>op. ([Status_update [49], Progress_update [50]] @
            [Result_update \<lparr>stdout = [32, 10, 9], stderr = [], return_code = 0,
               success = True\<rparr>], None)"
          and pre = "[Status_update [49], Progress_update [50]]"
          and result = "\<lparr>stdout = [32, 10, 9], stderr = [], return_code = 0,
               success = True\<rparr>"] s
    by (simp add: reliable_always)
qed

end
